theory Spec2Isabelle
  imports Complex_Main "HOL-Library.Log_Nat"
begin

section \<open>JavaScript values used by the bot\<close>

text \<open>
  A property that may be \<^verbatim>\<open>undefined\<close>, \<^verbatim>\<open>null\<close> or a string is a \<open>string option\<close>;
  \<open>None\<close> stands for both \<^verbatim>\<open>undefined\<close> and \<^verbatim>\<open>null\<close>, which the code never tells apart
  on these fields. A string is falsy exactly when it is empty.
\<close>

definition truthy :: "string option \<Rightarrow> bool" where
  "truthy v = (case v of None \<Rightarrow> False | Some s \<Rightarrow> s \<noteq> [])"

text \<open>\<^verbatim>\<open>v || null\<close> on such a property.\<close>

definition or_null :: "string option \<Rightarrow> string option" where
  "or_null v = (if truthy v then v else None)"

text \<open>\<^verbatim>\<open>v || dflt\<close> with a string default.\<close>

definition or_default :: "string option \<Rightarrow> string \<Rightarrow> string" where
  "or_default v dflt = (case v of None \<Rightarrow> dflt | Some s \<Rightarrow> if s = [] then dflt else s)"

subsection \<open>\<^verbatim>\<open>BigInt(string)\<close>\<close>

text \<open>
  The built-in conversion of a string to a BigInt (StringToBigInt): surrounding white
  space is dropped, the empty string is \<open>0\<close>, a decimal literal may carry one sign, a
  literal with prefix \<^verbatim>\<open>0x\<close>, \<^verbatim>\<open>0o\<close> or \<^verbatim>\<open>0b\<close> carries none, and anything else (a decimal
  point, an exponent, a separator) is a \<^verbatim>\<open>SyntaxError\<close>, here \<open>None\<close>. Strings are
  ASCII.
\<close>

definition is_ws :: "char \<Rightarrow> bool" where
  "is_ws c = (c \<in> set [CHR 0x09, CHR 0x0A, CHR 0x0B, CHR 0x0C, CHR 0x0D, CHR '' ''])"

definition trim :: "string \<Rightarrow> string" where
  "trim s = rev (dropWhile is_ws (rev (dropWhile is_ws s)))"

definition digit_val :: "char \<Rightarrow> nat option" where
  "digit_val c =
     (let n = (of_char c :: nat) in
      if 48 \<le> n \<and> n \<le> 57 then Some (n - 48)
      else if 97 \<le> n \<and> n \<le> 102 then Some (n - 87)
      else if 65 \<le> n \<and> n \<le> 70 then Some (n - 55)
      else None)"

fun digits_val :: "nat \<Rightarrow> nat \<Rightarrow> string \<Rightarrow> nat option" where
  "digits_val base acc [] = Some acc"
| "digits_val base acc (c # cs) =
     (case digit_val c of
        None \<Rightarrow> None
      | Some d \<Rightarrow> if d < base then digits_val base (acc * base + d) cs else None)"

definition parse_digits :: "nat \<Rightarrow> string \<Rightarrow> nat option" where
  "parse_digits base s = (if s = [] then None else digits_val base 0 s)"

definition radix_prefix :: "char \<Rightarrow> nat option" where
  "radix_prefix c =
     (if c = CHR ''x'' \<or> c = CHR ''X'' then Some 16
      else if c = CHR ''o'' \<or> c = CHR ''O'' then Some 8
      else if c = CHR ''b'' \<or> c = CHR ''B'' then Some 2
      else None)"

fun string_integer_literal :: "string \<Rightarrow> int option" where
  "string_integer_literal [] = Some 0"
| "string_integer_literal [c] = map_option int (parse_digits 10 [c])"
| "string_integer_literal (c # d # cs) =
     (if c = CHR ''+'' then map_option int (parse_digits 10 (d # cs))
      else if c = CHR ''-'' then map_option (\<lambda>n. - int n) (parse_digits 10 (d # cs))
      else if c = CHR ''0'' then
        (case radix_prefix d of
           Some base \<Rightarrow> map_option int (parse_digits base cs)
         | None \<Rightarrow> map_option int (parse_digits 10 (c # d # cs)))
      else map_option int (parse_digits 10 (c # d # cs)))"

definition BigInt :: "string \<Rightarrow> int option" where
  "BigInt s = string_integer_literal (trim s)"

text \<open>\<^verbatim>\<open>BigInt(v)\<close> on a property: \<^verbatim>\<open>undefined\<close> and \<^verbatim>\<open>null\<close> raise a \<^verbatim>\<open>TypeError\<close>.\<close>

definition js_BigInt :: "string option \<Rightarrow> int option" where
  "js_BigInt v = (case v of None \<Rightarrow> None | Some s \<Rightarrow> BigInt s)"

text \<open>
  Division of BigInts truncates towards zero.
\<close>

definition bigint_div :: "int \<Rightarrow> int \<Rightarrow> int" where
  "bigint_div a b = sgn a * sgn b * (\<bar>a\<bar> div \<bar>b\<bar>)"

subsection \<open>Numbers\<close>

text \<open>
  A JavaScript Number is an IEEE 754 double. A finite double is modelled by the rational
  it denotes, and every operation that the live bot and the ledger perform on Numbers
  rounds its exact result to the nearest double, to the even significand on a tie:
  \<open>double_of x\<close> is the double nearest to the rational \<open>x\<close>, with a significand of 53 bits
  and the exponent of the least significant bit not below \<open>-1074\<close> (so the subnormal
  numbers are covered). \<^verbatim>\<open>NaN\<close> and the infinities have no rational: a result of
  magnitude \<open>2^1024\<close> or more, which the code holds as \<^verbatim>\<open>Infinity\<close>, stays the rounded
  rational here.
\<close>

definition round_half_even :: "rat \<Rightarrow> int" where
  "round_half_even y =
     (let n = \<lfloor>y\<rfloor>; d = y - rat_of_int n
      in if d < 1 / 2 then n
         else if 1 / 2 < d then n + 1
         else if even n then n else n + 1)"

definition double_of :: "rat \<Rightarrow> rat" where
  "double_of x =
     (if x = 0 then 0
      else
        (let a = \<bar>fst (quotient_of x)\<bar>;
             b = snd (quotient_of x);
             k = bitlen a - bitlen b;
             e = max (- 1074) (if \<bar>x\<bar> * 2 powi (52 - k) < 2 ^ 52 then k - 53 else k - 52);
             m = round_half_even (\<bar>x\<bar> * 2 powi (- e))
         in sgn x * rat_of_int m * 2 powi e))"

text \<open>The product and the quotient of two Numbers; the divisor is not zero.\<close>

definition js_mul :: "rat \<Rightarrow> rat \<Rightarrow> rat" where
  "js_mul x y = double_of (x * y)"

definition js_div :: "rat \<Rightarrow> rat \<Rightarrow> rat" where
  "js_div x y = double_of (x / y)"

text \<open>
  \<^verbatim>\<open>x.toFixed(f)\<close> raises a \<^verbatim>\<open>RangeError\<close> when \<open>f\<close> exceeds \<open>100\<close>, and prints the Number
  in exponent notation when its magnitude is \<open>10^21\<close> or more. Otherwise it picks the
  integer \<open>n\<close> with \<open>n / 10^f\<close> nearest to the magnitude of the double, the larger one on a
  tie, and prints \<open>n\<close> with the point before its last \<open>f\<close> digits and the sign of the
  Number. \<open>toFixed_units f x\<close> is \<^verbatim>\<open>ethers.parseUnits(x.toFixed(f), f)\<close>: that \<open>n\<close> with the
  sign, and an exception, here \<open>None\<close>, on a \<^verbatim>\<open>RangeError\<close> and on a string in exponent
  notation, which \<^verbatim>\<open>parseUnits\<close> refuses. \<open>toFixed f x\<close> is the number that the printed
  string denotes; its only use is \<^verbatim>\<open>winRate.toFixed(2)\<close>.
\<close>

definition toFixed_units :: "nat \<Rightarrow> rat \<Rightarrow> int option" where
  "toFixed_units f x =
     (let d = double_of x in
      if 100 < f \<or> 10 ^ 21 \<le> \<bar>d\<bar> then None
      else Some (if d < 0 then - \<lfloor>- d * 10 ^ f + 1 / 2\<rfloor> else \<lfloor>d * 10 ^ f + 1 / 2\<rfloor>))"

definition toFixed :: "nat \<Rightarrow> rat \<Rightarrow> rat" where
  "toFixed f x =
     (case toFixed_units f x of
        Some n \<Rightarrow> rat_of_int n / 10 ^ f
      | None \<Rightarrow> double_of x)"

section \<open>The ledger: TradeTracker\<close>

datatype trade_type = BUY | SELL

datatype trade_status = OPEN | CLOSED

text \<open>
  A ledger entry. BUY and SELL entries are objects with different fields; a field an
  entry does not have is \<open>None\<close>. The fields that are only copied from the caller and
  printed (titles, addresses, gas, formatted amounts, token counts, prices) are left out.
\<close>

record trade =
  tradeId :: string
  ttype :: trade_type
  timestamp :: string
  marketSlug :: string
  outcome :: nat
  outcomeLabel :: string
  investmentAmount :: "string option"
  returnAmount :: "string option"
  actualReturnReceived :: "string option"
  txHash :: "string option"
  targetWalletAction :: string
  replicationReason :: string
  relatedBuyTradeId :: "string option"
  investedAmount :: "string option"
  pnlAmount :: "string option"
  status :: trade_status
  realizedPnL :: "string option"
  closedAt :: "string option"
  closeTxHash :: "string option"
  exitPrice :: "string option"

record statistics =
  totalTrades :: nat
  totalBuys :: nat
  totalSells :: nat
  totalInvested :: int
  totalReturned :: int
  totalPnL :: int
  activePositions :: nat
  closedPositions :: nat
  winRate :: rat

record tracker =
  trades :: "trade list"
  stats :: statistics

text \<open>The argument objects of \<^verbatim>\<open>recordBuy\<close>, \<^verbatim>\<open>recordSell\<close> and \<^verbatim>\<open>closeTrade\<close>.\<close>

record buy_data =
  bd_marketSlug :: string
  bd_outcome :: nat
  bd_investmentAmount :: "string option"
  bd_txHash :: "string option"
  bd_targetWalletAction :: "string option"
  bd_replicationReason :: "string option"

record sell_data =
  sd_marketSlug :: string
  sd_outcome :: nat
  sd_returnAmount :: "string option"
  sd_actualReturnReceived :: "string option"
  sd_txHash :: "string option"
  sd_targetWalletAction :: "string option"
  sd_replicationReason :: "string option"
  sd_relatedBuyTradeId :: "string option"
  sd_investedAmount :: "string option"
  sd_pnlAmount :: "string option"
  sd_exitPrice :: "string option"

record close_data =
  cd_closedAt :: "string option"
  cd_closeTxHash :: "string option"
  cd_exitPrice :: "string option"
  cd_realizedPnL :: "string option"

definition outcome_label :: "nat \<Rightarrow> string" where
  "outcome_label oc = (if oc = 0 then ''NO'' else ''YES'')"

subsection \<open>\<^verbatim>\<open>updateStats\<close>\<close>

text \<open>The two summing loops, with the running total as the accumulator \<open>acc\<close>. The local
  variables of \<^verbatim>\<open>updateStats\<close> that share a name with a field of the statistics are
  renamed.\<close>

fun invested_loop :: "trade list \<Rightarrow> int \<Rightarrow> int" where
  "invested_loop [] acc = acc"
| "invested_loop (buy # rest) acc =
     invested_loop rest
       (if truthy (investmentAmount buy) then
          (case js_BigInt (investmentAmount buy) of
             Some n \<Rightarrow> acc + n
           | None \<Rightarrow> acc)
        else acc)"

fun returned_loop :: "trade list \<Rightarrow> int \<Rightarrow> int" where
  "returned_loop [] acc = acc"
| "returned_loop (sell # rest) acc =
     returned_loop rest
       (if truthy (actualReturnReceived sell) then
          (case js_BigInt (actualReturnReceived sell) of
             Some n \<Rightarrow> acc + n
           | None \<Rightarrow> acc)
        else if truthy (returnAmount sell) then
          (case js_BigInt (returnAmount sell) of
             Some n \<Rightarrow> acc + n
           | None \<Rightarrow> acc)
        else acc)"

definition profitable :: "trade \<Rightarrow> bool" where
  "profitable t =
     (if \<not> truthy (realizedPnL t) then False
      else (case js_BigInt (realizedPnL t) of Some n \<Rightarrow> n > 0 | None \<Rightarrow> False))"

definition updateStats :: "trade list \<Rightarrow> statistics" where
  "updateStats ts =
     (let buys = filter (\<lambda>t. ttype t = BUY) ts;
          sells = filter (\<lambda>t. ttype t = SELL) ts;
          openBuys = filter (\<lambda>t. status t = OPEN) buys;
          closedBuys = filter (\<lambda>t. status t = CLOSED) buys;
          invested = invested_loop buys 0;
          returned = returned_loop sells 0;
          pnl = returned - invested;
          profitableClosedTrades = filter profitable closedBuys;
          rate = (if length closedBuys > 0
                  then js_mul (js_div (rat_of_nat (length profitableClosedTrades))
                                      (rat_of_nat (length closedBuys))) 100
                  else 0)
      in \<lparr> totalTrades = length ts,
           totalBuys = length buys,
           totalSells = length sells,
           totalInvested = invested,
           totalReturned = returned,
           totalPnL = pnl,
           activePositions = length openBuys,
           closedPositions = length closedBuys,
           winRate = toFixed 2 rate \<rparr>)"

text \<open>
  \<^verbatim>\<open>save\<close> recomputes the statistics and writes the file; a failed write is caught and
  the object in memory stays as it is.
\<close>

definition save :: "tracker \<Rightarrow> tracker" where
  "save t = t\<lparr>stats := updateStats (trades t)\<rparr>"

definition getStats :: "tracker \<Rightarrow> statistics \<times> tracker" where
  "getStats t = (updateStats (trades t), save t)"

subsection \<open>Recording and closing\<close>

text \<open>
  \<^verbatim>\<open>generateTradeId()\<close> and \<^verbatim>\<open>new Date().toISOString()\<close> read the clock and the random
  generator: the identifier \<open>newId\<close> and the time stamp \<open>now\<close> are arguments.
\<close>

definition recordBuy :: "string \<Rightarrow> string \<Rightarrow> buy_data \<Rightarrow> tracker \<Rightarrow> string \<times> tracker" where
  "recordBuy newId now data t =
     (let entry = \<lparr> tradeId = newId,
                    ttype = BUY,
                    timestamp = now,
                    marketSlug = bd_marketSlug data,
                    outcome = bd_outcome data,
                    outcomeLabel = outcome_label (bd_outcome data),
                    investmentAmount = bd_investmentAmount data,
                    returnAmount = None,
                    actualReturnReceived = None,
                    txHash = or_null (bd_txHash data),
                    targetWalletAction = or_default (bd_targetWalletAction data) ''NEW_POSITION'',
                    replicationReason =
                      or_default (bd_replicationReason data) ''Target opened position'',
                    relatedBuyTradeId = None,
                    investedAmount = None,
                    pnlAmount = None,
                    status = OPEN,
                    realizedPnL = None,
                    closedAt = None,
                    closeTxHash = None,
                    exitPrice = None \<rparr>
      in (tradeId entry, save (t\<lparr>trades := trades t @ [entry]\<rparr>)))"

text \<open>
  \<^verbatim>\<open>this.trades.find(p)\<close> is \<^const>\<open>find\<close>: the first entry, in ledger order, that
  satisfies \<open>p\<close>. The entry found is an object of the array, and assigning to its fields
  changes the array in place: \<open>update_first\<close> rewrites that first entry.
\<close>

fun update_first :: "('a \<Rightarrow> bool) \<Rightarrow> ('a \<Rightarrow> 'a) \<Rightarrow> 'a list \<Rightarrow> 'a list" where
  "update_first p f [] = []"
| "update_first p f (x # xs) = (if p x then f x # xs else x # update_first p f xs)"

definition closeTrade :: "string \<Rightarrow> close_data \<Rightarrow> string \<Rightarrow> tracker \<Rightarrow> bool \<times> tracker" where
  "closeTrade tid closeData now t =
     (case find (\<lambda>x. tradeId x = tid) (trades t) of
        None \<Rightarrow> (False, t)
      | Some _ \<Rightarrow>
          (True,
           save (t\<lparr>trades :=
             update_first (\<lambda>x. tradeId x = tid)
               (\<lambda>x. x\<lparr> status := CLOSED,
                        closedAt := Some (or_default (cd_closedAt closeData) now),
                        closeTxHash := or_null (cd_closeTxHash closeData),
                        exitPrice := or_null (cd_exitPrice closeData),
                        realizedPnL := or_null (cd_realizedPnL closeData) \<rparr>)
               (trades t)\<rparr>)))"

definition findOpenBuy :: "string \<Rightarrow> nat \<Rightarrow> tracker \<Rightarrow> trade option" where
  "findOpenBuy slug oc t =
     find (\<lambda>x. ttype x = BUY \<and> marketSlug x = slug \<and> outcome x = oc \<and> status x = OPEN)
       (trades t)"

definition getOpenPositions :: "tracker \<Rightarrow> trade list" where
  "getOpenPositions t = filter (\<lambda>x. ttype x = BUY \<and> status x = OPEN) (trades t)"

definition getClosedPositions :: "tracker \<Rightarrow> trade list" where
  "getClosedPositions t = filter (\<lambda>x. ttype x = BUY \<and> status x = CLOSED) (trades t)"

text \<open>
  In \<^verbatim>\<open>recordSell\<close> the new entry is pushed first, so it is the last entry of the array
  when \<^verbatim>\<open>trade.relatedBuyTradeId\<close> is assigned afterwards: \<open>map_last\<close> rewrites it.
\<close>

fun map_last :: "('a \<Rightarrow> 'a) \<Rightarrow> 'a list \<Rightarrow> 'a list" where
  "map_last f [] = []"
| "map_last f [x] = [f x]"
| "map_last f (x # y # ys) = x # map_last f (y # ys)"

definition recordSell :: "string \<Rightarrow> string \<Rightarrow> sell_data \<Rightarrow> tracker \<Rightarrow> string \<times> tracker" where
  "recordSell newId now data t =
     (let entry = \<lparr> tradeId = newId,
                    ttype = SELL,
                    timestamp = now,
                    marketSlug = sd_marketSlug data,
                    outcome = sd_outcome data,
                    outcomeLabel = outcome_label (sd_outcome data),
                    investmentAmount = None,
                    returnAmount = or_null (sd_returnAmount data),
                    actualReturnReceived = or_null (sd_actualReturnReceived data),
                    txHash = or_null (sd_txHash data),
                    targetWalletAction =
                      or_default (sd_targetWalletAction data) ''CLOSE_POSITION'',
                    replicationReason =
                      or_default (sd_replicationReason data) ''Target closed position'',
                    relatedBuyTradeId = or_null (sd_relatedBuyTradeId data),
                    investedAmount = or_null (sd_investedAmount data),
                    pnlAmount = or_null (sd_pnlAmount data),
                    status = CLOSED,
                    realizedPnL = None,
                    closedAt = None,
                    closeTxHash = None,
                    exitPrice = or_null (sd_exitPrice data) \<rparr>;
          t1 = t\<lparr>trades := trades t @ [entry]\<rparr>;
          closeData = \<lparr> cd_closedAt = Some (timestamp entry),
                        cd_closeTxHash = txHash entry,
                        cd_exitPrice = exitPrice entry,
                        cd_realizedPnL = sd_pnlAmount data \<rparr>;
          t2 = (case or_null (sd_relatedBuyTradeId data) of
                  Some buyId \<Rightarrow> snd (closeTrade buyId closeData now t1)
                | None \<Rightarrow>
                    (case findOpenBuy (sd_marketSlug data) (sd_outcome data) t1 of
                       None \<Rightarrow> t1
                     | Some relatedBuy \<Rightarrow>
                         (let t1' = snd (closeTrade (tradeId relatedBuy) closeData now t1)
                          in t1'\<lparr>trades :=
                               map_last (\<lambda>x. x\<lparr>relatedBuyTradeId := Some (tradeId relatedBuy)\<rparr>)
                                 (trades t1')\<rparr>)))
      in (tradeId entry, save t2))"

section \<open>Configuration\<close>

text \<open>
  Both programs read their parameters from the environment with the same pattern,
  \<^verbatim>\<open>process.env.X ? Number(process.env.X) : default\<close>. A variable that is unset or empty
  is \<open>None\<close>; one that is set holds the Number, a double, that its text denotes.
\<close>

record environment =
  env_RPC_URL :: "string option"
  env_TARGET_WALLET :: "string option"
  env_PRIVATE_KEY :: "string option"
  env_BET_MULTIPLIER :: "rat option"
  env_MIN_BET_USDC :: "rat option"
  env_MAX_BET_USDC :: "rat option"
  env_SLIPPAGE_BPS :: "rat option"
  env_FEE_BPS :: "rat option"
  env_STARTING_BALANCE_USDC :: "rat option"

record config =
  BET_MULTIPLIER :: rat
  MIN_BET_USDC :: rat
  MAX_BET_USDC :: rat
  SLIPPAGE_BPS :: rat
  FEE_BPS :: rat
  STARTING_BALANCE_USDC :: rat

definition env_or :: "rat option \<Rightarrow> rat \<Rightarrow> rat" where
  "env_or v dflt = (case v of None \<Rightarrow> dflt | Some x \<Rightarrow> x)"

definition read_config :: "environment \<Rightarrow> config" where
  "read_config env =
     \<lparr> BET_MULTIPLIER = env_or (env_BET_MULTIPLIER env) 1,
       MIN_BET_USDC = env_or (env_MIN_BET_USDC env) 1,
       MAX_BET_USDC = env_or (env_MAX_BET_USDC env) 100,
       SLIPPAGE_BPS = env_or (env_SLIPPAGE_BPS env) 200,
       FEE_BPS = env_or (env_FEE_BPS env) 100,
       STARTING_BALANCE_USDC = env_or (env_STARTING_BALANCE_USDC env) 100 \<rparr>"

text \<open>
  The start of the live bot: the three checks that end the process with
  \<^verbatim>\<open>process.exit(1)\<close>, in the order of the source. \<^verbatim>\<open>ethers.isAddress\<close> is a library
  function and is an argument. The simulator has no check at all: its configuration is
  \<open>read_config env\<close>.
\<close>

datatype startup_error = RPC_URL_required | TARGET_WALLET_required | PRIVATE_KEY_required

definition startup :: "(string \<Rightarrow> bool) \<Rightarrow> environment \<Rightarrow> startup_error + config" where
  "startup isAddress env =
     (if \<not> truthy (env_RPC_URL env) then Inl RPC_URL_required
      else if \<not> truthy (env_TARGET_WALLET env)
              \<or> \<not> (case env_TARGET_WALLET env of Some a \<Rightarrow> isAddress a | None \<Rightarrow> False)
           then Inl TARGET_WALLET_required
      else if \<not> truthy (env_PRIVATE_KEY env) then Inl PRIVATE_KEY_required
      else Inr (read_config env))"

section \<open>The simulator: TradingSimulator\<close>

text \<open>
  The simulator converts the feed's numeric strings with \<^verbatim>\<open>Number(...)\<close>; the records below
  hold the numbers they denote. The sums, differences and products of the simulator are
  taken exactly, without the rounding of doubles. The renderings of a Number,
  \<^verbatim>\<open>toString()\<close> and \<^verbatim>\<open>toFixed(2)\<close>, are built-ins of the language and are arguments of the
  model.
\<close>

record number_format =
  Number_toString :: "rat \<Rightarrow> string"
  Number_toFixed2 :: "rat \<Rightarrow> string"

record sim_position =
  sp_outcome :: nat
  sp_outcomeLabel :: string
  sp_invested :: rat
  sp_tokens :: rat
  sp_entryPrice :: rat
  sp_marketTitle :: string

record simulator =
  balance :: rat
  startingBalance :: rat
  positions :: "string \<rightharpoonup> sim_position"
  tradeTracker :: tracker

definition new_simulator :: "config \<Rightarrow> tracker \<Rightarrow> simulator" where
  "new_simulator cfg t =
     \<lparr> balance = STARTING_BALANCE_USDC cfg,
       startingBalance = STARTING_BALANCE_USDC cfg,
       positions = Map.empty,
       tradeTracker = t \<rparr>"

text \<open>The first two lines of \<^verbatim>\<open>simulateBuy\<close>: the investment after multiplier and limits.\<close>

definition ourInvestment :: "config \<Rightarrow> rat \<Rightarrow> rat" where
  "ourInvestment cfg targetInvestment =
     max (MIN_BET_USDC cfg) (min (MAX_BET_USDC cfg) (targetInvestment * BET_MULTIPLIER cfg))"

text \<open>\<^verbatim>\<open>simulateBuy\<close> returns \<^verbatim>\<open>false\<close>, here \<open>None\<close>, or the identifier of the recorded BUY.\<close>

definition simulateBuy ::
  "config \<Rightarrow> number_format \<Rightarrow> string \<Rightarrow> string \<Rightarrow>
   string \<Rightarrow> string \<Rightarrow> nat \<Rightarrow> string \<Rightarrow> rat \<Rightarrow> simulator \<Rightarrow> string option \<times> simulator" where
  "simulateBuy cfg fmt newId now slug marketTitle oc label targetInvestment s =
     (let invest = ourInvestment cfg targetInvestment in
      if balance s < invest then (None, s)
      else
        (let slippageLoss = invest * (SLIPPAGE_BPS cfg / 10000);
             effectiveInvestment = invest - slippageLoss;
             tokens = effectiveInvestment;
             s1 = s\<lparr> balance := balance s - invest,
                     positions := (positions s)(slug \<mapsto>
                       \<lparr> sp_outcome = oc,
                         sp_outcomeLabel = label,
                         sp_invested = invest,
                         sp_tokens = tokens,
                         sp_entryPrice = 1,
                         sp_marketTitle = marketTitle \<rparr>) \<rparr>;
             r = recordBuy newId now
                   \<lparr> bd_marketSlug = slug,
                     bd_outcome = oc,
                     bd_investmentAmount = Some (Number_toString fmt (invest * 1000000)),
                     bd_txHash = None,
                     bd_targetWalletAction = Some ''NEW_POSITION'',
                     bd_replicationReason =
                       Some (''Simulated buy - target invested ''
                             @ Number_toFixed2 fmt targetInvestment) \<rparr>
                   (tradeTracker s1)
         in (Some (fst r), s1\<lparr>tradeTracker := snd r\<rparr>)))"

text \<open>
  The return of a sale before fees. \<open>winningOutcome\<close> is \<open>None\<close> for \<^verbatim>\<open>null\<close> and for
  \<^verbatim>\<open>undefined\<close>, which the default value of the parameter turns into \<^verbatim>\<open>null\<close>;
  \<^verbatim>\<open>marketValue || position.invested * 0.95\<close> takes the estimate when the market value is
  \<^verbatim>\<open>null\<close> or \<open>0\<close>.
\<close>

definition returnAmount_of :: "config \<Rightarrow> sim_position \<Rightarrow> nat \<Rightarrow> rat option \<Rightarrow> nat option \<Rightarrow> rat" where
  "returnAmount_of cfg position oc marketValue winningOutcome =
     (case winningOutcome of
        Some w \<Rightarrow>
          (if w = oc then sp_invested position * (1 - FEE_BPS cfg / 10000) else 0)
      | None \<Rightarrow>
          (case marketValue of
             None \<Rightarrow> sp_invested position * (95 / 100)
           | Some v \<Rightarrow> if v = 0 then sp_invested position * (95 / 100) else v))"

definition netReturn_of :: "config \<Rightarrow> sim_position \<Rightarrow> nat \<Rightarrow> rat option \<Rightarrow> nat option \<Rightarrow> rat" where
  "netReturn_of cfg position oc marketValue winningOutcome =
     (let returnAmount = returnAmount_of cfg position oc marketValue winningOutcome;
          feeLoss = returnAmount * (FEE_BPS cfg / 10000)
      in returnAmount - feeLoss)"

definition simulateSell ::
  "config \<Rightarrow> number_format \<Rightarrow> string \<Rightarrow> string \<Rightarrow>
   string \<Rightarrow> nat \<Rightarrow> rat option \<Rightarrow> nat option \<Rightarrow> simulator \<Rightarrow> bool \<times> simulator" where
  "simulateSell cfg fmt newId now slug oc marketValue winningOutcome s =
     (case positions s slug of
        None \<Rightarrow> (False, s)
      | Some position \<Rightarrow>
          if sp_outcome position \<noteq> oc then (False, s)
          else
            (let netReturn = netReturn_of cfg position oc marketValue winningOutcome;
                 s1 = s\<lparr>balance := balance s + netReturn\<rparr>;
                 pnl = netReturn - sp_invested position;
                 r = recordSell newId now
                       \<lparr> sd_marketSlug = slug,
                         sd_outcome = oc,
                         sd_returnAmount = Some (Number_toString fmt (netReturn * 1000000)),
                         sd_actualReturnReceived =
                           Some (Number_toString fmt (netReturn * 1000000)),
                         sd_txHash = None,
                         sd_targetWalletAction =
                           Some (if winningOutcome \<noteq> None then ''MARKET_RESOLVED''
                                 else ''CLOSE_POSITION''),
                         sd_replicationReason =
                           Some (if winningOutcome \<noteq> None
                                 then (if winningOutcome = Some oc
                                       then ''Market resolved - WON''
                                       else ''Market resolved - LOST'')
                                 else ''Target closed position''),
                         sd_relatedBuyTradeId = None,
                         sd_investedAmount =
                           Some (Number_toString fmt (sp_invested position * 1000000)),
                         sd_pnlAmount = Some (Number_toString fmt (pnl * 1000000)),
                         sd_exitPrice = None \<rparr>
                       (tradeTracker s1);
                 s2 = s1\<lparr>tradeTracker := snd r\<rparr>
             in (True, s2\<lparr>positions := (positions s2)(slug := None)\<rparr>)))"

subsection \<open>\<^verbatim>\<open>runSimulation\<close>\<close>

text \<open>
  One element of the feed, as the simulator reads it: \<open>sf_tokensBalance\<close> holds
  \<^verbatim>\<open>Number(tokensBalance.yes || '0')\<close> and \<^verbatim>\<open>Number(tokensBalance.no || '0')\<close>; a cost, a
  market value or a latest price is \<open>None\<close> when the field is missing or falsy.
\<close>

record sim_market =
  sm_slug :: "string option"
  sm_title :: string
  sm_status :: string
  sm_winningOutcomeIndex :: "nat option"

record sim_feed =
  sf_market :: "sim_market option"
  sf_tokensBalance :: "(rat \<times> rat) option"
  sf_cost_yes :: "rat option"
  sf_cost_no :: "rat option"
  sf_marketValue_yes :: "rat option"
  sf_marketValue_no :: "rat option"
  sf_latestYesPrice :: "rat option"
  sf_latestNoPrice :: "rat option"

definition estimateMarketValue :: "sim_position \<Rightarrow> sim_feed \<Rightarrow> rat option" where
  "estimateMarketValue position positionData =
     (let marketValueRaw = (if sp_outcome position = 0 then sf_marketValue_no positionData
                            else sf_marketValue_yes positionData);
          latestPrice = (if sp_outcome position = 0 then sf_latestNoPrice positionData
                         else sf_latestYesPrice positionData)
      in case marketValueRaw of
           Some v \<Rightarrow> Some (v / 1000000)
         | None \<Rightarrow>
             (case latestPrice of
                Some p \<Rightarrow> Some (sp_invested position * p)
              | None \<Rightarrow> None))"

text \<open>The side the target holds: the larger balance when both are positive, NO on a tie.\<close>

definition sim_targetOutcome :: "rat \<Rightarrow> rat \<Rightarrow> nat option" where
  "sim_targetOutcome yesBalance noBalance =
     (if yesBalance > 0 \<and> noBalance = 0 then Some 1
      else if noBalance > 0 \<and> yesBalance = 0 then Some 0
      else if yesBalance > 0 \<and> noBalance > 0 then Some (if yesBalance > noBalance then 1 else 0)
      else None)"

text \<open>
  The identifiers and time stamps that one round of the loop may draw: one pair for a
  sale, one for a purchase.
\<close>

record draws =
  sell_id :: string
  sell_now :: string
  buy_id :: string
  buy_now :: string

text \<open>The body of the loop of \<^verbatim>\<open>runSimulation\<close>; every \<^verbatim>\<open>continue\<close> returns the state.\<close>

definition simulation_round ::
  "config \<Rightarrow> number_format \<Rightarrow> draws \<Rightarrow> sim_feed \<Rightarrow> simulator \<Rightarrow> simulator" where
  "simulation_round cfg fmt d pos s =
     (case sf_market pos of
        None \<Rightarrow> s
      | Some market \<Rightarrow>
     (case or_null (sm_slug market) of
        None \<Rightarrow> s
      | Some slug \<Rightarrow>
     (case sf_tokensBalance pos of
        None \<Rightarrow> s
      | Some (yesBalance, noBalance) \<Rightarrow>
     (case sim_targetOutcome yesBalance noBalance of
        None \<Rightarrow> s
      | Some targetOutcome \<Rightarrow>
          (let label = outcome_label targetOutcome;
               targetCostRaw = (if targetOutcome = 0 then sf_cost_no pos else sf_cost_yes pos);
               targetInvestment = (case targetCostRaw of
                                     Some c \<Rightarrow> c / 1000000
                                   | None \<Rightarrow> MIN_BET_USDC cfg);
               isResolved = (sm_status market = ''RESOLVED'');
               winningOutcome = sm_winningOutcomeIndex market
           in if isResolved then
                (case positions s slug of
                   None \<Rightarrow> s
                 | Some held \<Rightarrow>
                     snd (simulateSell cfg fmt (sell_id d) (sell_now d) slug (sp_outcome held)
                            None winningOutcome s))
              else
                (case positions s slug of
                   None \<Rightarrow>
                     snd (simulateBuy cfg fmt (buy_id d) (buy_now d) slug (sm_title market)
                            targetOutcome label targetInvestment s)
                 | Some ourPos \<Rightarrow>
                     if sp_outcome ourPos \<noteq> targetOutcome then
                       (let marketValue = estimateMarketValue ourPos pos;
                            s1 = snd (simulateSell cfg fmt (sell_id d) (sell_now d) slug
                                        (sp_outcome ourPos) marketValue None s)
                        in snd (simulateBuy cfg fmt (buy_id d) (buy_now d) slug
                                  (sm_title market) targetOutcome label targetInvestment s1))
                     else s))))))"

fun simulation_loop ::
  "config \<Rightarrow> number_format \<Rightarrow> (nat \<Rightarrow> draws) \<Rightarrow> nat \<Rightarrow> sim_feed list \<Rightarrow> simulator \<Rightarrow> simulator" where
  "simulation_loop cfg fmt d i [] s = s"
| "simulation_loop cfg fmt d i (pos # rest) s =
     simulation_loop cfg fmt d (Suc i) rest (simulation_round cfg fmt (d i) pos s)"

definition runSimulation ::
  "config \<Rightarrow> number_format \<Rightarrow> (nat \<Rightarrow> draws) \<Rightarrow> sim_feed list \<Rightarrow> simulator \<Rightarrow> simulator" where
  "runSimulation cfg fmt d feed s =
     (if feed = [] then s else simulation_loop cfg fmt d 0 feed s)"

section \<open>The live bot\<close>

subsection \<open>State\<close>

text \<open>
  The module-level maps \<^verbatim>\<open>lastSeenPositions\<close> and \<^verbatim>\<open>ourPositions\<close>, the flag
  \<^verbatim>\<open>isInitialSync\<close> and the tracker (\<^verbatim>\<open>null\<close> until \<^verbatim>\<open>main\<close> creates it). The maps store
  BigInts as their decimal strings and read them back with \<^verbatim>\<open>BigInt(...)\<close>; the model
  stores the integer. \<open>submitted\<close> is the list of the trades handed to the market
  contract, in order: one entry per call of \<^verbatim>\<open>marketContract.buy\<close> or
  \<^verbatim>\<open>marketContract.sell\<close>.
\<close>

record last_seen =
  ls_outcomeIndex :: nat
  ls_tokensBalance :: int

record our_position =
  op_outcomeIndex :: nat
  op_amount :: int
  op_marketAddress :: string
  op_collateralToken :: string
  op_decimals :: nat
  op_tradeId :: "string option"

datatype trade_call =
    BuyCall string int nat int
  | SellCall string int nat int

record bot =
  lastSeenPositions :: "string \<rightharpoonup> last_seen"
  ourPositions :: "string \<rightharpoonup> our_position"
  isInitialSync :: bool
  liveTracker :: "tracker option"
  submitted :: "trade_call list"

text \<open>One element of the feed, as the live bot reads it.\<close>

record collateral =
  ct_address :: string
  ct_decimals :: nat

record live_market =
  lm_slug :: "string option"
  lm_status :: string
  lm_closed :: bool
  lm_address :: "string option"
  lm_title :: "string option"
  lm_collateralToken :: "collateral option"

record live_feed =
  lf_market :: "live_market option"
  lf_tokensBalance :: "(string option \<times> string option) option"

subsection \<open>What the chain answers\<close>

text \<open>
  The bot talks to the chain through ethers. What the chain answers during one leg is an
  argument of the model: a failed call (it throws; \<^verbatim>\<open>estimateGasFor\<close> returns \<^verbatim>\<open>null\<close>) is
  \<open>None\<close> or \<open>False\<close>. \<^verbatim>\<open>ensureUsdcApproval\<close> and \<^verbatim>\<open>ensureErc1155Approval\<close> catch their
  own errors and return a boolean; their approval transactions are not trades. The
  identifier and the time stamp of the ledger entry a leg records are drawn here too.
\<close>

record open_world =
  ow_balanceOf :: "int option"
  ow_approvalOk :: bool
  ow_calcBuyAmount :: "int option"
  ow_gasEstimate :: "int option"
  ow_txOverrides :: bool
  ow_buy :: "string option"
  ow_wait :: bool
  ow_tradeId :: string
  ow_now :: string

record close_world =
  cw_positionReads :: bool
  cw_balanceOf :: "int option"
  cw_approvalOk :: bool
  cw_gasEstimate :: "int option"
  cw_txOverrides :: bool
  cw_sell :: "string option"
  cw_wait :: bool
  cw_tradeId :: string
  cw_now :: string

text \<open>\<^verbatim>\<open>if (!gasEst)\<close>: \<^verbatim>\<open>null\<close> and \<open>0n\<close> are falsy.\<close>

definition gas_ok :: "int option \<Rightarrow> bool" where
  "gas_ok g = (case g of None \<Rightarrow> False | Some n \<Rightarrow> n \<noteq> 0)"

text \<open>\<^verbatim>\<open>BigInt(x)\<close> on a Number: a \<^verbatim>\<open>RangeError\<close>, here \<open>None\<close>, unless \<open>x\<close> is an integer.\<close>

definition BigInt_of_Number :: "rat \<Rightarrow> int option" where
  "BigInt_of_Number x = (if rat_of_int \<lfloor>x\<rfloor> = x then Some \<lfloor>x\<rfloor> else None)"

text \<open>The decimal string of a BigInt.\<close>

definition digit_char :: "nat \<Rightarrow> char" where
  "digit_char d = char_of (48 + d)"

fun nat_digits :: "nat \<Rightarrow> string" where
  "nat_digits n = (if n < 10 then [digit_char n] else nat_digits (n div 10) @ [digit_char (n mod 10)])"

declare nat_digits.simps [simp del]

definition BigInt_toString :: "int \<Rightarrow> string" where
  "BigInt_toString i = (if i < 0 then CHR ''-'' # nat_digits (nat (- i)) else nat_digits (nat i))"

subsection \<open>\<^verbatim>\<open>replicateOpen\<close>\<close>

text \<open>
  The bet of the live bot, \<^verbatim>\<open>ourInvestmentNumber\<close>, and its amount in units of the
  collateral, \<^verbatim>\<open>ethers.parseUnits(ourInvestmentNumber.toFixed(decimals), decimals)\<close>.
\<close>

definition ourInvestmentNumber :: "config \<Rightarrow> rat" where
  "ourInvestmentNumber cfg =
     max (MIN_BET_USDC cfg)
       (min (MAX_BET_USDC cfg) (js_mul (MIN_BET_USDC cfg) (BET_MULTIPLIER cfg)))"

definition investment :: "config \<Rightarrow> nat \<Rightarrow> int option" where
  "investment cfg decimals = toFixed_units decimals (ourInvestmentNumber cfg)"

text \<open>
  Every \<^verbatim>\<open>return\<close> and every exception, which the \<^verbatim>\<open>catch\<close> of the function logs, leaves
  the state as it is at that point.
\<close>

definition replicateOpen ::
  "config \<Rightarrow> open_world \<Rightarrow> string \<Rightarrow> live_market \<Rightarrow> nat \<Rightarrow> bot \<Rightarrow> bot" where
  "replicateOpen cfg w slug market outcomeIndex st =
     (case or_null (lm_address market) of
        None \<Rightarrow> st
      | Some marketAddress \<Rightarrow>
     (case lm_collateralToken market of
        None \<Rightarrow> st
      | Some token \<Rightarrow>
          (let decimals = ct_decimals token in
     (case investment cfg decimals of
        None \<Rightarrow> st
      | Some invest \<Rightarrow>
     (case ow_balanceOf w of
        None \<Rightarrow> st
      | Some usdcBal \<Rightarrow>
          if usdcBal < invest then st
          else if \<not> ow_approvalOk w then st
          else
     (case ow_calcBuyAmount w of
        None \<Rightarrow> st
      | Some expectedTokens \<Rightarrow>
     (case BigInt_of_Number (SLIPPAGE_BPS cfg) of
        None \<Rightarrow> st
      | Some slippage \<Rightarrow>
          (let minOutcomeTokensToBuy =
                 expectedTokens - bigint_div (expectedTokens * slippage) 10000
           in
          if \<not> gas_ok (ow_gasEstimate w) then st
          else if \<not> ow_txOverrides w then st
          else
            (let st1 = st\<lparr>submitted := submitted st
                         @ [BuyCall marketAddress invest outcomeIndex minOutcomeTokensToBuy]\<rparr>
             in
     (case ow_buy w of
        None \<Rightarrow> st1
      | Some hash \<Rightarrow>
          if \<not> ow_wait w then st1
          else
            (let held = \<lparr> op_outcomeIndex = outcomeIndex,
                          op_amount = invest,
                          op_marketAddress = marketAddress,
                          op_collateralToken = ct_address token,
                          op_decimals = decimals,
                          op_tradeId = None \<rparr>;
                 st2 = st1\<lparr>ourPositions := (ourPositions st1)(slug \<mapsto> held)\<rparr>
             in
     (case liveTracker st2 of
        None \<Rightarrow> st2
      | Some t \<Rightarrow>
          (let r = recordBuy (ow_tradeId w) (ow_now w)
                     \<lparr> bd_marketSlug = slug,
                       bd_outcome = outcomeIndex,
                       bd_investmentAmount = Some (BigInt_toString invest),
                       bd_txHash = Some hash,
                       bd_targetWalletAction = Some ''NEW_POSITION'',
                       bd_replicationReason = Some ''Target opened position'' \<rparr> t
           in st2\<lparr> liveTracker := Some (snd r),
                    ourPositions := (ourPositions st2)(slug \<mapsto>
                      held\<lparr>op_tradeId := Some (fst r)\<rparr>) \<rparr>)))))))))))))"

subsection \<open>\<^verbatim>\<open>replicateClose\<close>\<close>

definition replicateClose ::
  "close_world \<Rightarrow> string \<Rightarrow> live_market \<Rightarrow> nat \<Rightarrow> bot \<Rightarrow> bot" where
  "replicateClose w slug market outcomeIndex st =
     (case ourPositions st slug of
        None \<Rightarrow> st
      | Some ourPos \<Rightarrow>
          if op_outcomeIndex ourPos \<noteq> outcomeIndex then st
          else
     (case or_null (lm_address market) of
        None \<Rightarrow> st\<lparr>ourPositions := (ourPositions st)(slug := None)\<rparr>
      | Some _ \<Rightarrow>
          (let marketAddress = op_marketAddress ourPos in
          if \<not> cw_positionReads w then st
          else
     (case cw_balanceOf w of
        None \<Rightarrow> st
      | Some bal \<Rightarrow>
          if bal = 0 then st\<lparr>ourPositions := (ourPositions st)(slug := None)\<rparr>
          else if \<not> cw_approvalOk w then st
          else
            (let investedAmt = op_amount ourPos;
                 returnAmt = investedAmt - bigint_div investedAmt 100
             in
          if \<not> gas_ok (cw_gasEstimate w) then st
          else if \<not> cw_txOverrides w then st
          else
            (let st1 = st\<lparr>submitted := submitted st
                         @ [SellCall marketAddress returnAmt outcomeIndex bal]\<rparr>
             in
     (case cw_sell w of
        None \<Rightarrow> st1
      | Some hash \<Rightarrow>
          if \<not> cw_wait w then st1
          else
            (let pnl = returnAmt - investedAmt;
                 st2 = (case liveTracker st1 of
                          None \<Rightarrow> st1
                        | Some t \<Rightarrow>
                            st1\<lparr>liveTracker := Some (snd (recordSell (cw_tradeId w) (cw_now w)
                              \<lparr> sd_marketSlug = slug,
                                sd_outcome = outcomeIndex,
                                sd_returnAmount = Some (BigInt_toString returnAmt),
                                sd_actualReturnReceived = Some (BigInt_toString returnAmt),
                                sd_txHash = Some hash,
                                sd_targetWalletAction = Some ''CLOSE_POSITION'',
                                sd_replicationReason = Some ''Target closed position'',
                                sd_relatedBuyTradeId = or_null (op_tradeId ourPos),
                                sd_investedAmount = Some (BigInt_toString investedAmt),
                                sd_pnlAmount = Some (BigInt_toString pnl),
                                sd_exitPrice = None \<rparr> t))\<rparr>)
             in st2\<lparr>ourPositions := (ourPositions st2)(slug := None)\<rparr>))))))))"

subsection \<open>\<^verbatim>\<open>processPosition\<close> and the poll\<close>

text \<open>
  The side the target holds and its balance: the larger balance when both are positive,
  NO on a tie.
\<close>

definition targetOutcome_of :: "int \<Rightarrow> int \<Rightarrow> (nat \<times> int) option" where
  "targetOutcome_of yesBalance noBalance =
     (if yesBalance > 0 \<and> noBalance = 0 then Some (1, yesBalance)
      else if noBalance > 0 \<and> yesBalance = 0 then Some (0, noBalance)
      else if yesBalance > 0 \<and> noBalance > 0 then
        (if yesBalance > noBalance then Some (1, yesBalance) else Some (0, noBalance))
      else None)"

text \<open>\<^verbatim>\<open>BigInt(v || '0')\<close> on a field of \<^verbatim>\<open>tokensBalance\<close>.\<close>

definition balance_field :: "string option \<Rightarrow> int option" where
  "balance_field v = BigInt (or_default v ''0'')"

definition processPosition ::
  "config \<Rightarrow> close_world \<Rightarrow> open_world \<Rightarrow> live_feed \<Rightarrow> bot \<Rightarrow> bot" where
  "processPosition cfg cw ow position st =
     (case lf_market position of
        None \<Rightarrow> st
      | Some market \<Rightarrow>
     (case or_null (lm_slug market) of
        None \<Rightarrow> st
      | Some slug \<Rightarrow>
          if lm_status market = ''RESOLVED'' \<or> lm_closed market then st
          else
     (case lf_tokensBalance position of
        None \<Rightarrow> st
      | Some (yes, no) \<Rightarrow>
     (case balance_field yes of
        None \<Rightarrow> st
      | Some yesBalance \<Rightarrow>
     (case balance_field no of
        None \<Rightarrow> st
      | Some noBalance \<Rightarrow>
     (case targetOutcome_of yesBalance noBalance of
        None \<Rightarrow>
          (case lastSeenPositions st slug of
             None \<Rightarrow> st
           | Some lastSeen \<Rightarrow>
               (let st1 = replicateClose cw slug market (ls_outcomeIndex lastSeen) st
                in st1\<lparr>lastSeenPositions := (lastSeenPositions st1)(slug := None)\<rparr>))
      | Some (targetOutcome, targetBalance) \<Rightarrow>
          (let seen = \<lparr> ls_outcomeIndex = targetOutcome, ls_tokensBalance = targetBalance \<rparr>
           in
          (case lastSeenPositions st slug of
             None \<Rightarrow>
               (let st1 = (if isInitialSync st then st
                           else replicateOpen cfg ow slug market targetOutcome st)
                in st1\<lparr>lastSeenPositions := (lastSeenPositions st1)(slug \<mapsto> seen)\<rparr>)
           | Some lastSeen \<Rightarrow>
               if ls_outcomeIndex lastSeen \<noteq> targetOutcome then
                 (let st1 = replicateClose cw slug market (ls_outcomeIndex lastSeen) st;
                      st2 = replicateOpen cfg ow slug market targetOutcome st1
                  in st2\<lparr>lastSeenPositions := (lastSeenPositions st2)(slug \<mapsto> seen)\<rparr>)
               else
                 st\<lparr>lastSeenPositions := (lastSeenPositions st)(slug \<mapsto> seen)\<rparr>))))))))"

text \<open>
  One poll: nothing happens on an empty feed (a failed fetch gives the empty list too);
  otherwise every element is processed in feed order and the flag is cleared afterwards.
  The answers of the chain are indexed by the position in the feed.
\<close>

fun poll_loop ::
  "config \<Rightarrow> (nat \<Rightarrow> close_world \<times> open_world) \<Rightarrow> nat \<Rightarrow> live_feed list \<Rightarrow> bot \<Rightarrow> bot" where
  "poll_loop cfg w i [] st = st"
| "poll_loop cfg w i (pos # rest) st =
     poll_loop cfg w (Suc i) rest (processPosition cfg (fst (w i)) (snd (w i)) pos st)"

definition poll ::
  "config \<Rightarrow> (nat \<Rightarrow> close_world \<times> open_world) \<Rightarrow> live_feed list \<Rightarrow> bot \<Rightarrow> bot" where
  "poll cfg w feed st =
     (if feed = [] then st
      else (poll_loop cfg w 0 feed st)\<lparr>isInitialSync := False\<rparr>)"

section \<open>Ledger-level notions of the specification\<close>

subsection \<open>Monetary sums\<close>





subsection \<open>Ledgers used as examples, and ledger-level notions\<close>

text \<open>
  A fresh tracker, the argument objects the simulator passes to the ledger, and small
  ledgers built by the ledger's own operations. \<open>open_buy_for\<close>, \<open>positive_integer\<close>,
  \<open>win_ratio\<close> and \<open>win_percentage\<close> follow the specification's words; \<open>run_ops\<close> runs a
  sequence of ledger calls, and \<open>buys_guarded\<close> says that each \<^verbatim>\<open>recordBuy\<close> of the
  sequence is for a market without an open BUY at that moment.
\<close>

definition empty_stats :: statistics where
  "empty_stats = \<lparr> totalTrades = 0, totalBuys = 0, totalSells = 0, totalInvested = 0,
     totalReturned = 0, totalPnL = 0, activePositions = 0, closedPositions = 0, winRate = 0 \<rparr>"

definition new_tracker :: tracker where
  "new_tracker = \<lparr> trades = [], stats = empty_stats \<rparr>"

definition sim_buy_data :: "string \<Rightarrow> nat \<Rightarrow> string \<Rightarrow> buy_data" where
  "sim_buy_data slug oc amount =
     \<lparr> bd_marketSlug = slug, bd_outcome = oc, bd_investmentAmount = Some amount,
       bd_txHash = None, bd_targetWalletAction = Some ''NEW_POSITION'',
       bd_replicationReason = None \<rparr>"

definition sim_sell_data :: "string \<Rightarrow> nat \<Rightarrow> string \<Rightarrow> string \<Rightarrow> sell_data" where
  "sim_sell_data slug oc amount pnl =
     \<lparr> sd_marketSlug = slug, sd_outcome = oc, sd_returnAmount = Some amount,
       sd_actualReturnReceived = Some amount, sd_txHash = None,
       sd_targetWalletAction = Some ''CLOSE_POSITION'', sd_replicationReason = None,
       sd_relatedBuyTradeId = None, sd_investedAmount = None, sd_pnlAmount = Some pnl,
       sd_exitPrice = None \<rparr>"

definition two_open_buys :: tracker where
  "two_open_buys =
     snd (recordBuy ''b2'' ''t2'' (sim_buy_data ''m'' 1 ''2000000'')
       (snd (recordBuy ''b1'' ''t1'' (sim_buy_data ''m'' 1 ''1000000'') new_tracker)))"

definition open_buy_for :: "string \<Rightarrow> nat \<Rightarrow> trade \<Rightarrow> bool" where
  "open_buy_for slug oc x =
     (ttype x = BUY \<and> marketSlug x = slug \<and> outcome x = oc \<and> status x = OPEN)"

definition positive_integer :: "string option \<Rightarrow> bool" where
  "positive_integer v = (case js_BigInt v of Some n \<Rightarrow> 0 < n | None \<Rightarrow> False)"

definition win_ratio :: "tracker \<Rightarrow> rat" where
  "win_ratio t =
     rat_of_nat (length (filter (\<lambda>x. positive_integer (realizedPnL x)) (getClosedPositions t)))
       / rat_of_nat (length (getClosedPositions t))"

definition win_percentage :: "tracker \<Rightarrow> rat" where
  "win_percentage t = (if getClosedPositions t = [] then 0 else 100 * win_ratio t)"

datatype ledger_op =
    RecordBuy string string buy_data
  | RecordSell string string sell_data
  | CloseTrade string close_data string

fun apply_op :: "ledger_op \<Rightarrow> tracker \<Rightarrow> tracker" where
  "apply_op (RecordBuy newId now d) t = snd (recordBuy newId now d t)"
| "apply_op (RecordSell newId now d) t = snd (recordSell newId now d t)"
| "apply_op (CloseTrade tid d now) t = snd (closeTrade tid d now t)"

fun run_ops :: "ledger_op list \<Rightarrow> tracker \<Rightarrow> tracker" where
  "run_ops [] t = t"
| "run_ops (x # xs) t = run_ops xs (apply_op x t)"

definition open_markets :: "tracker \<Rightarrow> string list" where
  "open_markets t = map marketSlug (getOpenPositions t)"

fun buys_guarded :: "ledger_op list \<Rightarrow> tracker \<Rightarrow> bool" where
  "buys_guarded [] t = True"
| "buys_guarded (RecordBuy newId now d # xs) t =
     (bd_marketSlug d \<notin> set (open_markets t)
      \<and> buys_guarded xs (apply_op (RecordBuy newId now d) t))"
| "buys_guarded (x # xs) t = buys_guarded xs (apply_op x t)"

definition buy_sell_buy :: "ledger_op list" where
  "buy_sell_buy =
     [RecordBuy ''b1'' ''t1'' (sim_buy_data ''m'' 1 ''1000000''),
      RecordSell ''s1'' ''t2'' (sim_sell_data ''m'' 1 ''900000'' ''-100000''),
      RecordBuy ''b2'' ''t3'' (sim_buy_data ''m'' 0 ''1000000'')]"

definition one_win_two_losses :: tracker where
  "one_win_two_losses =
     run_ops
       [RecordBuy ''b1'' ''t1'' (sim_buy_data ''m'' 1 ''1000000''),
        RecordBuy ''b2'' ''t2'' (sim_buy_data ''n'' 0 ''2000000''),
        RecordBuy ''b3'' ''t3'' (sim_buy_data ''k'' 1 ''3000000''),
        RecordSell ''s1'' ''t4'' (sim_sell_data ''m'' 1 ''1500000'' ''500000''),
        RecordSell ''s2'' ''t5'' (sim_sell_data ''n'' 0 ''1500000'' ''-500000''),
        RecordSell ''s3'' ''t6'' (sim_sell_data ''k'' 1 ''0'' ''-3000000'')]
       new_tracker"



definition sell_without_link :: tracker where
  "sell_without_link =
     snd (recordSell ''s1'' ''t3'' (sim_sell_data ''m'' 1 ''900000'' ''-100000'') two_open_buys)"

section \<open>Configurations, markets and chain answers used as examples\<close>

text \<open>
  The configuration of the specification's clamping example and of the README's example
  (multiplier \<open>0.5\<close>, minimum \<open>5\<close>, maximum \<open>50\<close>), an AMM market with a USDC collateral of
  six decimals, a chain on which every call of a leg succeeds, and a bot that has just
  started.
\<close>

definition half_5_50 :: config where
  "half_5_50 =
     \<lparr> BET_MULTIPLIER = 1 / 2, MIN_BET_USDC = 5, MAX_BET_USDC = 50, SLIPPAGE_BPS = 200,
       FEE_BPS = 100, STARTING_BALANCE_USDC = 100 \<rparr>"

definition market_M2 :: live_market where
  "market_M2 =
     \<lparr> lm_slug = Some ''M2'', lm_status = ''FUNDED'', lm_closed = False,
       lm_address = Some ''0xM2'', lm_title = Some ''M2'',
       lm_collateralToken = Some \<lparr> ct_address = ''0xUSDC'', ct_decimals = 6 \<rparr> \<rparr>"

definition open_succeeds :: open_world where
  "open_succeeds =
     \<lparr> ow_balanceOf = Some 100000000, ow_approvalOk = True, ow_calcBuyAmount = Some 9000000,
       ow_gasEstimate = Some 200000, ow_txOverrides = True, ow_buy = Some ''0xb'',
       ow_wait = True, ow_tradeId = ''trade_b'', ow_now = ''t_b'' \<rparr>"

definition close_succeeds :: close_world where
  "close_succeeds =
     \<lparr> cw_positionReads = True, cw_balanceOf = Some 8900000, cw_approvalOk = True,
       cw_gasEstimate = Some 200000, cw_txOverrides = True, cw_sell = Some ''0xs'',
       cw_wait = True, cw_tradeId = ''trade_s'', cw_now = ''t_s'' \<rparr>"

definition started_bot :: bot where
  "started_bot =
     \<lparr> lastSeenPositions = Map.empty, ourPositions = Map.empty, isInitialSync = True,
       liveTracker = Some new_tracker, submitted = [] \<rparr>"

text \<open>An environment that sets a minimum above the maximum.\<close>

definition env_min_over_max :: environment where
  "env_min_over_max =
     \<lparr> env_RPC_URL = Some ''https://rpc'', env_TARGET_WALLET = Some ''0xT'',
       env_PRIVATE_KEY = Some ''k'', env_BET_MULTIPLIER = Some (1 / 2),
       env_MIN_BET_USDC = Some 50, env_MAX_BET_USDC = Some 5, env_SLIPPAGE_BPS = None,
       env_FEE_BPS = None, env_STARTING_BALANCE_USDC = None \<rparr>"

section \<open>Runs of the simulator\<close>

text \<open>
  A call of \<^verbatim>\<open>simulateBuy\<close> or \<^verbatim>\<open>simulateSell\<close> with its arguments, and a sequence of such
  calls run from a state. \<open>returns_nonneg\<close> says that every sale of the sequence that
  finds its position returns a non-negative amount after fees; \<open>market_values_nonneg\<close>
  that no sale is given a negative market value; \<open>invested_nonneg\<close> that no held position
  has a negative investment.
\<close>

datatype sim_call =
    SimulateBuy string string string string nat string rat
  | SimulateSell string string string nat "rat option" "nat option"

fun sim_apply :: "config \<Rightarrow> number_format \<Rightarrow> sim_call \<Rightarrow> simulator \<Rightarrow> simulator" where
  "sim_apply cfg fmt (SimulateBuy newId now slug title oc label target) s =
     snd (simulateBuy cfg fmt newId now slug title oc label target s)"
| "sim_apply cfg fmt (SimulateSell newId now slug oc marketValue winningOutcome) s =
     snd (simulateSell cfg fmt newId now slug oc marketValue winningOutcome s)"

fun sim_run :: "config \<Rightarrow> number_format \<Rightarrow> sim_call list \<Rightarrow> simulator \<Rightarrow> simulator" where
  "sim_run cfg fmt [] s = s"
| "sim_run cfg fmt (c # cs) s = sim_run cfg fmt cs (sim_apply cfg fmt c s)"

definition sale_return_nonneg ::
  "config \<Rightarrow> string \<Rightarrow> nat \<Rightarrow> rat option \<Rightarrow> nat option \<Rightarrow> simulator \<Rightarrow> bool" where
  "sale_return_nonneg cfg slug oc marketValue winningOutcome s =
     (case positions s slug of
        None \<Rightarrow> True
      | Some p \<Rightarrow>
          if sp_outcome p = oc then 0 \<le> netReturn_of cfg p oc marketValue winningOutcome
          else True)"

fun returns_nonneg :: "config \<Rightarrow> number_format \<Rightarrow> sim_call list \<Rightarrow> simulator \<Rightarrow> bool" where
  "returns_nonneg cfg fmt [] s = True"
| "returns_nonneg cfg fmt (SimulateSell newId now slug oc marketValue winningOutcome # cs) s =
     (sale_return_nonneg cfg slug oc marketValue winningOutcome s
      \<and> returns_nonneg cfg fmt cs
            (sim_apply cfg fmt (SimulateSell newId now slug oc marketValue winningOutcome) s))"
| "returns_nonneg cfg fmt (c # cs) s = returns_nonneg cfg fmt cs (sim_apply cfg fmt c s)"

fun market_values_nonneg :: "sim_call list \<Rightarrow> bool" where
  "market_values_nonneg [] = True"
| "market_values_nonneg (SimulateSell newId now slug oc (Some v) winningOutcome # cs) =
     (0 \<le> v \<and> market_values_nonneg cs)"
| "market_values_nonneg (c # cs) = market_values_nonneg cs"

definition invested_nonneg :: "simulator \<Rightarrow> bool" where
  "invested_nonneg s = (\<forall>slug p. positions s slug = Some p \<longrightarrow> 0 \<le> sp_invested p)"

text \<open>
  A stand-in for the renderings of a Number: exact on integers; a non-integer is printed
  as its integer part followed by a point, which is no integer literal, as the rendering
  of JavaScript is none.
\<close>

definition plain_format :: number_format where
  "plain_format =
     \<lparr> Number_toString =
         (\<lambda>x. if rat_of_int \<lfloor>x\<rfloor> = x then BigInt_toString \<lfloor>x\<rfloor>
              else BigInt_toString \<lfloor>x\<rfloor> @ ''.''),
       Number_toFixed2 = (\<lambda>x. BigInt_toString \<lfloor>x * 100 + 1 / 2\<rfloor>) \<rparr>"

definition three_buys_one_sale :: "sim_call list" where
  "three_buys_one_sale =
     [SimulateBuy ''b1'' ''t1'' ''M1'' ''Market 1'' 1 ''YES'' 200,
      SimulateBuy ''b2'' ''t2'' ''M2'' ''Market 2'' 0 ''NO'' 200,
      SimulateBuy ''b3'' ''t3'' ''M3'' ''Market 3'' 1 ''YES'' 200,
      SimulateSell ''s1'' ''t4'' ''M1'' 1 None (Some 1)]"

section \<open>Events and ledger views\<close>

text \<open>
  What the reconciliation compares with its memory. \<open>live_reading\<close> is the target position
  an element of the feed shows to the live bot: the market is named and neither resolved
  nor closed, both balances are integer literals, and one side is held. \<open>sim_reading\<close> is
  the same for the simulator, which does not look at the status before it reads the
  balances. \<open>feed_slugs\<close> lists the markets a feed names, in feed order.
\<close>

definition live_reading :: "live_feed \<Rightarrow> (string \<times> live_market \<times> nat \<times> int) option" where
  "live_reading pos =
     (case lf_market pos of
        None \<Rightarrow> None
      | Some market \<Rightarrow>
     (case or_null (lm_slug market) of
        None \<Rightarrow> None
      | Some slug \<Rightarrow>
          if lm_status market = ''RESOLVED'' \<or> lm_closed market then None
          else
     (case lf_tokensBalance pos of
        None \<Rightarrow> None
      | Some (yes, no) \<Rightarrow>
     (case balance_field yes of
        None \<Rightarrow> None
      | Some yesBalance \<Rightarrow>
     (case balance_field no of
        None \<Rightarrow> None
      | Some noBalance \<Rightarrow>
     (case targetOutcome_of yesBalance noBalance of
        None \<Rightarrow> None
      | Some (oc, bal) \<Rightarrow> Some (slug, market, oc, bal)))))))"

definition slug_of :: "live_feed \<Rightarrow> string option" where
  "slug_of pos = (case lf_market pos of None \<Rightarrow> None | Some market \<Rightarrow> or_null (lm_slug market))"

definition feed_slugs :: "live_feed list \<Rightarrow> string list" where
  "feed_slugs feed = List.map_filter slug_of feed"

definition sim_reading :: "sim_feed \<Rightarrow> (string \<times> sim_market \<times> nat) option" where
  "sim_reading pos =
     (case sf_market pos of
        None \<Rightarrow> None
      | Some market \<Rightarrow>
     (case or_null (sm_slug market) of
        None \<Rightarrow> None
      | Some slug \<Rightarrow>
     (case sf_tokensBalance pos of
        None \<Rightarrow> None
      | Some (yesBalance, noBalance) \<Rightarrow>
     (case sim_targetOutcome yesBalance noBalance of
        None \<Rightarrow> None
      | Some oc \<Rightarrow> Some (slug, market, oc)))))"

text \<open>
  The view of a ledger that the ordering claims are about: for each entry, in ledger
  order, whether it is a BUY or a SELL, its market, and the action of the target it
  replicates. The ledger of a bot without a tracker is empty.
\<close>

definition entry_view :: "trade \<Rightarrow> trade_type \<times> string \<times> string" where
  "entry_view e = (ttype e, marketSlug e, targetWalletAction e)"

definition ledger_view :: "tracker \<Rightarrow> (trade_type \<times> string \<times> string) list" where
  "ledger_view t = map entry_view (trades t)"

definition bot_ledger_view :: "bot \<Rightarrow> (trade_type \<times> string \<times> string) list" where
  "bot_ledger_view st = (case liveTracker st of None \<Rightarrow> [] | Some t \<Rightarrow> ledger_view t)"

definition call_kind :: "trade_call \<Rightarrow> trade_type" where
  "call_kind c = (case c of BuyCall _ _ _ _ \<Rightarrow> BUY | SellCall _ _ _ _ \<Rightarrow> SELL)"

section \<open>States and feeds used as examples\<close>

text \<open>
  A bot that has replicated the target's YES position in market \<open>M2\<close> on an earlier poll,
  and three later readings of that market: the target on the NO side, the market
  resolved, and the simulator's views of the same. \<open>holding_simulator\<close> has bought the YES
  side of \<open>M2\<close>.
\<close>

definition holding_bot :: bot where
  "holding_bot =
     (replicateOpen half_5_50 open_succeeds ''M2'' market_M2 1 started_bot)
       \<lparr> lastSeenPositions :=
           [''M2'' \<mapsto> \<lparr> ls_outcomeIndex = 1, ls_tokensBalance = 9000000 \<rparr>],
         isInitialSync := False \<rparr>"


definition M2_resolved :: live_feed where
  "M2_resolved =
     \<lparr> lf_market = Some (market_M2\<lparr>lm_status := ''RESOLVED''\<rparr>),
       lf_tokensBalance = Some (Some ''9000000'', Some ''0'') \<rparr>"

definition holding_simulator :: simulator where
  "holding_simulator =
     snd (simulateBuy half_5_50 plain_format ''b1'' ''t1'' ''M2'' ''Market 2'' 1 ''YES'' 200
           (new_simulator half_5_50 new_tracker))"

definition sim_market_M2 :: sim_market where
  "sim_market_M2 =
     \<lparr> sm_slug = Some ''M2'', sm_title = ''Market 2'', sm_status = ''FUNDED'',
       sm_winningOutcomeIndex = None \<rparr>"


definition sim_M2_resolved :: sim_feed where
  "sim_M2_resolved =
     \<lparr> sf_market = Some (sim_market_M2\<lparr> sm_status := ''RESOLVED'',
                                         sm_winningOutcomeIndex := Some 1 \<rparr>),
       sf_tokensBalance = Some (9000000, 0),
       sf_cost_yes = Some 200000000, sf_cost_no = None, sf_marketValue_yes = None,
       sf_marketValue_no = None, sf_latestYesPrice = None, sf_latestNoPrice = None \<rparr>"

definition some_draws :: draws where
  "some_draws = \<lparr> sell_id = ''s9'', sell_now = ''t9'', buy_id = ''b9'', buy_now = ''t9'' \<rparr>"

section \<open>The first poll\<close>

text \<open>
  The last-seen map after every target position of a feed has been recorded in it, and
  a feed of three markets in which the target holds YES, NO and YES.
\<close>

fun record_all :: "live_feed list \<Rightarrow> (string \<rightharpoonup> last_seen) \<Rightarrow> (string \<rightharpoonup> last_seen)" where
  "record_all [] m = m"
| "record_all (pos # rest) m =
     record_all rest
       (case live_reading pos of
          None \<Rightarrow> m
        | Some (slug, market, oc, bal) \<Rightarrow>
            m(slug \<mapsto> \<lparr> ls_outcomeIndex = oc, ls_tokensBalance = bal \<rparr>))"

definition feed_of :: "string \<Rightarrow> string \<Rightarrow> string \<Rightarrow> live_feed" where
  "feed_of slug yes no =
     \<lparr> lf_market = Some (market_M2\<lparr>lm_slug := Some slug\<rparr>),
       lf_tokensBalance = Some (Some yes, Some no) \<rparr>"

definition three_markets :: "live_feed list" where
  "three_markets =
     [feed_of ''M1'' ''9000000'' ''0'', feed_of ''M2'' ''0'' ''7000000'',
      feed_of ''M3'' ''9000000'' ''0'']"

text \<open>A chain on which every call of every leg would succeed.\<close>

definition willing_chain :: "nat \<Rightarrow> close_world \<times> open_world" where
  "willing_chain i = (close_succeeds, open_succeeds)"

section \<open>Verification\<close>

subsection \<open>Rounding to a double\<close>

lemma round_half_even_close: "\<bar>rat_of_int (round_half_even y) - y\<bar> \<le> 1 / 2"
proof -
  have "rat_of_int \<lfloor>y\<rfloor> \<le> y" "y < rat_of_int \<lfloor>y\<rfloor> + 1" by linarith+
  then show ?thesis
    unfolding round_half_even_def Let_def by (auto simp: abs_le_iff)
qed

lemma ratio_above_power:
  assumes "0 < a" "0 < b"
  shows "(2::rat) powi (bitlen a - bitlen b - 1) \<le> rat_of_int a / rat_of_int b"
proof -
  from bitlen_bounds [OF assms(1)] have la: "2 ^ nat (bitlen a - 1) \<le> a" by simp
  from bitlen_bounds [OF assms(2)] have lb: "b < 2 ^ nat (bitlen b)" by simp
  have a1: "1 \<le> bitlen a" using assms(1) by (auto simp: bitlen_alt_def)
  have b0: "0 \<le> bitlen b" by (rule bitlen_nonneg)
  have pa: "(2::rat) powi (bitlen a - 1) \<le> rat_of_int a"
  proof -
    have "(2::rat) powi (bitlen a - 1) = 2 ^ nat (bitlen a - 1)"
      using a1 by (simp add: power_int_def)
    also have "\<dots> = rat_of_int (2 ^ nat (bitlen a - 1))" by simp
    also have "\<dots> \<le> rat_of_int a" using la by (simp only: of_int_le_iff)
    finally show ?thesis .
  qed
  have pb: "rat_of_int b \<le> (2::rat) powi (bitlen b)"
  proof -
    have "rat_of_int b \<le> rat_of_int (2 ^ nat (bitlen b))" using lb by (simp only: of_int_le_iff)
    also have "\<dots> = (2::rat) powi (bitlen b)" using b0 by (simp add: power_int_def)
    finally show ?thesis .
  qed
  have bpos: "0 < rat_of_int b" using assms(2) by simp
  have "bitlen a - bitlen b - 1 = (bitlen a - 1) - bitlen b" by simp
  then have "(2::rat) powi (bitlen a - bitlen b - 1) = 2 powi ((bitlen a - 1) - bitlen b)"
    by (rule arg_cong)
  also have "\<dots> = 2 powi (bitlen a - 1) / 2 powi (bitlen b)"
    by (rule power_int_diff) simp
  also have "\<dots> \<le> rat_of_int a / 2 powi (bitlen b)"
    using pa by (simp add: divide_right_mono)
  also have "\<dots> \<le> rat_of_int a / rat_of_int b"
    using pb bpos assms(1) by (simp add: frac_le)
  finally show ?thesis .
qed

text \<open>
  The rounding error: half a unit of the last place, which is at most the \<open>2^53\<close>-th part
  of the magnitude for a normal number and \<open>2^-1075\<close> for a subnormal one.
\<close>

lemma double_of_close: "\<bar>double_of x - x\<bar> \<le> max (\<bar>x\<bar> / 2 ^ 53) (2 powi (- 1075))"
proof (cases "x = 0")
  case True
  then show ?thesis by (simp add: double_of_def)
next
  case False
  obtain a' b where q: "quotient_of x = (a', b)" by (cases "quotient_of x")
  have bpos: "0 < b" using quotient_of_denom_pos [OF q] .
  have xq: "x = rat_of_int a' / rat_of_int b" using quotient_of_div [OF q] .
  with False bpos have a'0: "a' \<noteq> 0" by auto
  define a where "a = \<bar>a'\<bar>"
  have apos: "0 < a" using a'0 by (simp add: a_def)
  define X where "X = \<bar>x\<bar>"
  have Xq: "X = rat_of_int a / rat_of_int b"
    using bpos by (simp add: X_def xq a_def abs_divide)
  define k where "k = bitlen a - bitlen b"
  define e0 where "e0 = (if X * 2 powi (52 - k) < 2 ^ 52 then k - 53 else k - 52)"
  define e where "e = max (- 1074) e0"
  define y where "y = X * 2 powi (- e)"
  define m where "m = round_half_even y"
  have d: "double_of x = sgn x * rat_of_int m * 2 powi e"
    using False by (simp add: double_of_def q Let_def m_def y_def e_def e0_def k_def X_def a_def)
  have low: "(2::rat) powi (k - 1) \<le> X"
    unfolding k_def Xq by (rule ratio_above_power [OF apos bpos])
  have pe: "0 < (2::rat) powi e" by (simp add: zero_less_power_int)
  have Xy: "X = y * 2 powi e"
    by (simp add: y_def power_int_minus field_simps)
  have half: "\<bar>rat_of_int m - y\<bar> \<le> 1 / 2" unfolding m_def by (rule round_half_even_close)
  then have scaled: "\<bar>rat_of_int m - y\<bar> * 2 powi e \<le> 1 / 2 * 2 powi e"
    using pe by (simp add: mult_right_mono)
  have "double_of x - x = sgn x * ((rat_of_int m - y) * 2 powi e)"
  proof -
    have "x = sgn x * X" by (simp add: X_def sgn_mult_abs)
    then have "double_of x - x = sgn x * rat_of_int m * 2 powi e - sgn x * X" by (simp add: d)
    also have "\<dots> = sgn x * ((rat_of_int m - y) * 2 powi e)"
      by (simp add: Xy algebra_simps)
    finally show ?thesis .
  qed
  then have err: "\<bar>double_of x - x\<bar> = \<bar>rat_of_int m - y\<bar> * 2 powi e"
    using False pe by (simp add: abs_mult abs_sgn_eq)
  show ?thesis
  proof (cases "- 1074 \<le> e0")
    case normal: True
    then have ee: "e = e0" by (simp add: e_def)
    have ybig: "2 ^ 52 \<le> y"
    proof (cases "X * 2 powi (52 - k) < 2 ^ 52")
      case True
      then have e: "e = k - 53" by (simp add: ee e0_def)
      have "y = X * 2 powi (53 - k)" by (simp add: y_def e)
      also have "(2::rat) powi (53 - k) = 2 powi (52 - (k - 1))" by (simp add: algebra_simps)
      also have "\<dots> = 2 ^ 52 / 2 powi (k - 1)"
        by (subst power_int_diff) simp_all
      finally have yeq: "y = X / 2 powi (k - 1) * 2 ^ 52" by simp
      have "1 \<le> X / 2 powi (k - 1)"
        using low by (simp add: zero_less_power_int pos_le_divide_eq)
      then have "1 * (2::rat) ^ 52 \<le> X / 2 powi (k - 1) * 2 ^ 52"
        by (rule mult_right_mono) simp
      then show ?thesis by (simp only: yeq mult_1)
    next
      case False
      then have e: "e = k - 52" by (simp add: ee e0_def)
      have "y = X * 2 powi (52 - k)" by (simp add: y_def e)
      with False show ?thesis by simp
    qed
    have "1 / 2 * 2 powi e \<le> y * 2 powi e / 2 ^ 53"
    proof -
      have "2 powi e * 2 ^ 52 \<le> 2 powi e * y" using ybig pe by (simp add: mult_left_mono)
      then show ?thesis by (simp add: field_simps)
    qed
    with scaled have "\<bar>rat_of_int m - y\<bar> * 2 powi e \<le> X / 2 ^ 53" by (simp add: Xy)
    then show ?thesis by (simp add: err X_def)
  next
    case False
    then have ee: "e = - 1074" by (simp add: e_def)
    have "(- 1075 :: int) = - 1 + - 1074" by simp
    then have "(2::rat) powi (- 1075) = 2 powi (- 1 + - 1074)" by (rule arg_cong)
    also have "\<dots> = 2 powi (- 1) * 2 powi (- 1074)"
      by (rule power_int_add) simp
    also have "(2::rat) powi (- 1) = 1 / 2" by (simp add: power_int_minus)
    finally have h: "1 / 2 * (2::rat) powi e = 2 powi (- 1075)" unfolding ee by (rule sym)
    from scaled have "\<bar>rat_of_int m - y\<bar> * 2 powi e \<le> 2 powi (- 1075)" unfolding h .
    then show ?thesis by (simp only: err max.coboundedI2)
  qed
qed

lemma double_of_close_le:
  assumes "\<bar>x\<bar> \<le> b" "1 \<le> b"
  shows "\<bar>double_of x - x\<bar> \<le> b / 2 ^ 53"
proof -
  have "\<bar>x\<bar> / 2 ^ 53 \<le> b / 2 ^ 53" using assms(1) by (simp add: divide_right_mono)
  moreover have "(2::rat) powi (- 1075) \<le> 1 / 2 ^ 53"
  proof -
    have "(2::rat) powi (- 1075) \<le> 2 powi (- 53)"
      by (rule power_int_increasing) simp_all
    also have "\<dots> = 1 / 2 ^ 53" by (simp add: power_int_minus field_simps)
    finally show ?thesis .
  qed
  moreover have "(1::rat) / 2 ^ 53 \<le> b / 2 ^ 53" using assms(2) by (simp add: divide_right_mono)
  ultimately have "max (\<bar>x\<bar> / 2 ^ 53) (2 powi (- 1075)) \<le> b / 2 ^ 53" by simp
  with double_of_close [of x] show ?thesis by linarith
qed

lemma double_of_zero: "double_of 0 = 0"
  by (simp add: double_of_def)

lemma double_of_nonneg:
  assumes "0 \<le> x"
  shows "0 \<le> double_of x"
proof (cases "x = 0")
  case True
  then show ?thesis by (simp add: double_of_def)
next
  case False
  with assms have "0 < x" by simp
  then have "0 \<le> rat_of_int (round_half_even (\<bar>x\<bar> * 2 powi (- e)))" for e
  proof -
    assume "0 < x"
    then have "0 \<le> \<bar>x\<bar> * 2 powi (- e)" by (simp add: zero_le_power_int)
    then have "0 \<le> \<lfloor>\<bar>x\<bar> * 2 powi (- e)\<rfloor>" by simp
    then have "0 \<le> round_half_even (\<bar>x\<bar> * 2 powi (- e))"
      unfolding round_half_even_def Let_def by auto
    then show ?thesis by simp
  qed
  with \<open>0 < x\<close> show ?thesis
    by (simp add: double_of_def Let_def zero_le_power_int)
qed

lemma toFixed_zero: "toFixed 2 0 = 0"
proof -
  have "\<lfloor>(1::rat) / 2\<rfloor> = 0" by (simp add: floor_eq_iff)
  then show ?thesis by (simp add: toFixed_def toFixed_units_def double_of_zero)
qed

lemma toFixed_2_close:
  assumes "0 \<le> x" "x \<le> 200"
  shows "\<bar>toFixed 2 x - x\<bar> \<le> 1 / 200 + 200 / 2 ^ 53"
proof -
  define d where "d = double_of x"
  have dn: "0 \<le> d" unfolding d_def using assms(1) by (rule double_of_nonneg)
  have dx: "\<bar>d - x\<bar> \<le> 200 / 2 ^ 53"
    unfolding d_def using assms by (intro double_of_close_le) simp_all
  moreover have "(200::rat) / 2 ^ 53 \<le> 1" by simp
  ultimately have "d \<le> 201" using assms(2) by linarith
  moreover have "(201::rat) < 10 ^ 21" by simp
  ultimately have dsmall: "d < 10 ^ 21" by (rule le_less_trans)
  define k where "k = rat_of_int \<lfloor>d * 100 + 1 / 2\<rfloor>"
  have lo: "k \<le> d * 100 + 1 / 2" and hi: "d * 100 + 1 / 2 < k + 1"
    unfolding k_def by linarith+
  have tf: "toFixed 2 x = k / 100"
    using dn dsmall
    by (simp add: toFixed_def toFixed_units_def d_def [symmetric] Let_def k_def)
  from lo have "k / 100 - d \<le> 1 / 200" by linarith
  moreover from hi have "- (1 / 200) \<le> k / 100 - d" by linarith
  ultimately have "\<bar>k / 100 - d\<bar> \<le> 1 / 200" by linarith
  with dx show ?thesis unfolding tf by linarith
qed

subsection \<open>Statistics\<close>

lemma BigInt_empty: "BigInt [] = Some 0"
  by (simp add: BigInt_def trim_def)

lemmas ledger_defs = recordBuy_def recordSell_def closeTrade_def findOpenBuy_def save_def
  sim_buy_data_def sim_sell_data_def new_tracker_def or_null_def or_default_def truthy_def
  outcome_label_def Let_def

lemmas BigInt_defs = BigInt_def js_BigInt_def trim_def is_ws_def parse_digits_def
  digit_val_def radix_prefix_def

subsection \<open>The decimal string of a BigInt, read back\<close>



















subsection \<open>The two totals\<close>













subsection \<open>Searching and rewriting the entry array\<close>

lemma find_split:
  "find p xs = Some b \<Longrightarrow> \<exists>pre post. xs = pre @ b # post \<and> p b \<and> (\<forall>x\<in>set pre. \<not> p x)"
proof (induction xs)
  case Nil
  then show ?case by simp
next
  case (Cons x xs)
  show ?case
  proof (cases "p x")
    case True
    with Cons.prems have "x = b" by simp
    with True have "x # xs = [] @ b # xs \<and> p b \<and> (\<forall>y\<in>set []. \<not> p y)" by simp
    then show ?thesis by blast
  next
    case False
    with Cons.prems have "find p xs = Some b" by simp
    from Cons.IH [OF this] obtain pre post
      where "xs = pre @ b # post" "p b" "\<forall>y\<in>set pre. \<not> p y" by blast
    with False have "x # xs = (x # pre) @ b # post \<and> p b \<and> (\<forall>y\<in>set (x # pre). \<not> p y)"
      by simp
    then show ?thesis by blast
  qed
qed

lemma find_append_not: "\<not> p e \<Longrightarrow> find p (xs @ [e]) = find p xs"
  by (induction xs) auto

lemma find_in_middle: "\<forall>x\<in>set pre. \<not> p x \<Longrightarrow> p b \<Longrightarrow> find p (pre @ b # post) = Some b"
  by (induction pre) auto

lemma update_first_in_middle:
  "\<forall>x\<in>set pre. \<not> p x \<Longrightarrow> p b \<Longrightarrow> update_first p f (pre @ b # post) = pre @ f b # post"
  by (induction pre) auto

lemma map_last_snoc: "map_last g (xs @ [x]) = xs @ [g x]"
proof (induction xs)
  case Nil
  show ?case by simp
next
  case (Cons y ys)
  then show ?case by (cases ys) simp_all
qed

lemma exists_find: "\<exists>x\<in>set xs. p x \<Longrightarrow> \<exists>b. find p xs = Some b"
  by (induction xs) auto

text \<open>
  Claim C6, as the code has it. A \<^verbatim>\<open>recordSell\<close> call that carries no \<^verbatim>\<open>relatedBuyTradeId\<close>, on a
  ledger whose identifiers are distinct and that holds at least one OPEN BUY for the same
  market and outcome, links the new SELL to the earliest such BUY in ledger order (the one
  \<^verbatim>\<open>find\<close> returns), and that BUY is the one entry that goes from OPEN to CLOSED: every
  entry before it and after it is unchanged, and the SELL is appended at the end.
\<close>

theorem recordSell_links_earliest_open_buy:
  assumes nolink: "\<not> truthy (sd_relatedBuyTradeId data)"
    and ids: "distinct (map tradeId (trades t))"
    and ex: "\<exists>x\<in>set (trades t). open_buy_for (sd_marketSlug data) (sd_outcome data) x"
  shows "\<exists>pre b post s.
           trades t = pre @ b # post
         \<and> (\<forall>x\<in>set pre. \<not> open_buy_for (sd_marketSlug data) (sd_outcome data) x)
         \<and> open_buy_for (sd_marketSlug data) (sd_outcome data) b
         \<and> trades (snd (recordSell newId now data t))
             = pre @ b\<lparr> status := CLOSED,
                        closedAt := Some (or_default (Some now) now),
                        closeTxHash := or_null (sd_txHash data),
                        exitPrice := or_null (sd_exitPrice data),
                        realizedPnL := or_null (sd_pnlAmount data) \<rparr> # post @ [s]
         \<and> ttype s = SELL \<and> tradeId s = newId
         \<and> relatedBuyTradeId s = Some (tradeId b)"
proof -
  let ?p = "\<lambda>x. ttype x = BUY \<and> marketSlug x = sd_marketSlug data
                 \<and> outcome x = sd_outcome data \<and> status x = OPEN"
  from ex have "\<exists>x\<in>set (trades t). ?p x" by (simp add: open_buy_for_def)
  then obtain b where fb: "find ?p (trades t) = Some b" using exists_find [of "trades t" ?p] by blast
  from find_split [OF fb] obtain pre post
    where sp: "trades t = pre @ b # post" and pb: "?p b" and npre: "\<forall>x\<in>set pre. \<not> ?p x"
    by blast
  from ids sp have idpre: "\<forall>x\<in>set pre. tradeId x \<noteq> tradeId b"
    by (auto simp: image_iff)
  define s0 where "s0 = \<lparr> tradeId = newId, ttype = SELL, timestamp = now,
      marketSlug = sd_marketSlug data, outcome = sd_outcome data,
      outcomeLabel = outcome_label (sd_outcome data), investmentAmount = None,
      returnAmount = or_null (sd_returnAmount data),
      actualReturnReceived = or_null (sd_actualReturnReceived data),
      txHash = or_null (sd_txHash data),
      targetWalletAction = or_default (sd_targetWalletAction data) ''CLOSE_POSITION'',
      replicationReason = or_default (sd_replicationReason data) ''Target closed position'',
      relatedBuyTradeId = or_null (sd_relatedBuyTradeId data),
      investedAmount = or_null (sd_investedAmount data),
      pnlAmount = or_null (sd_pnlAmount data), status = CLOSED, realizedPnL = None,
      closedAt = None, closeTxHash = None, exitPrice = or_null (sd_exitPrice data) \<rparr>"
  have s0_sell: "\<not> ?p s0" by (simp add: s0_def)
  have f1: "find ?p (trades t @ [s0]) = Some b"
    using find_append_not [of ?p s0 "trades t"] s0_sell fb by simp
  have f2: "find (\<lambda>x. tradeId x = tradeId b) (trades t @ [s0]) = Some b"
    using find_in_middle [of pre "\<lambda>x. tradeId x = tradeId b" b "post @ [s0]"] idpre sp by simp
  have u: "update_first (\<lambda>x. tradeId x = tradeId b) f (trades t @ [s0]) = pre @ f b # post @ [s0]" for f
    using update_first_in_middle [of pre "\<lambda>x. tradeId x = tradeId b" b f "post @ [s0]"] idpre sp
    by simp
  have nl: "or_null (sd_relatedBuyTradeId data) = None"
    using nolink by (simp add: or_null_def)
  have ml: "map_last g (pre @ x # post @ [s0]) = pre @ x # post @ [g s0]" for g x
    using map_last_snoc [of g "pre @ x # post" s0] by simp
  have s0_fields: "timestamp s0 = now" "txHash s0 = or_null (sd_txHash data)"
    "exitPrice s0 = or_null (sd_exitPrice data)" "tradeId s0 = newId" "ttype s0 = SELL"
    by (simp_all add: s0_def)
  have idem: "or_null (or_null v) = or_null v" for v
    by (simp add: or_null_def)
  have res: "trades (snd (recordSell newId now data t))
      = pre @ b\<lparr> status := CLOSED,
                 closedAt := Some (or_default (Some now) now),
                 closeTxHash := or_null (sd_txHash data),
                 exitPrice := or_null (sd_exitPrice data),
                 realizedPnL := or_null (sd_pnlAmount data) \<rparr> # post
          @ [s0\<lparr>relatedBuyTradeId := Some (tradeId b)\<rparr>]"
    unfolding recordSell_def Let_def s0_def [symmetric]
    by (simp add: nl findOpenBuy_def f1 closeTrade_def f2 u save_def ml s0_fields idem)
  have "ttype (s0\<lparr>relatedBuyTradeId := Some (tradeId b)\<rparr>) = SELL"
    "tradeId (s0\<lparr>relatedBuyTradeId := Some (tradeId b)\<rparr>) = newId"
    "relatedBuyTradeId (s0\<lparr>relatedBuyTradeId := Some (tradeId b)\<rparr>) = Some (tradeId b)"
    by (simp_all add: s0_def)
  with sp pb npre res show ?thesis
    unfolding open_buy_for_def by blast
qed

lemma two_open_buys_trades:
  "map tradeId (trades two_open_buys) = [''b1'', ''b2'']"
  "map (open_buy_for ''m'' 1) (trades two_open_buys) = [True, True]"
  by (simp_all add: two_open_buys_def open_buy_for_def ledger_defs)

text \<open>
  The theorem at a ledger with two OPEN BUYs \<open>b1\<close>, \<open>b2\<close> for the same market and outcome.
\<close>

theorem recordSell_links_earliest_open_buy_witness:
  "\<not> truthy (sd_relatedBuyTradeId (sim_sell_data ''m'' 1 ''900000'' ''-100000''))
   \<and> distinct (map tradeId (trades two_open_buys))
   \<and> (\<exists>x\<in>set (trades two_open_buys). open_buy_for ''m'' 1 x)
   \<and> (\<exists>pre b post s.
         trades two_open_buys = pre @ b # post
       \<and> (\<forall>x\<in>set pre. \<not> open_buy_for ''m'' 1 x)
       \<and> open_buy_for ''m'' 1 b
       \<and> trades sell_without_link
           = pre @ b\<lparr> status := CLOSED,
                      closedAt := Some ''t3'',
                      closeTxHash := None,
                      exitPrice := None,
                      realizedPnL := Some ''-100000'' \<rparr> # post @ [s]
       \<and> ttype s = SELL \<and> tradeId s = ''s1''
       \<and> relatedBuyTradeId s = Some (tradeId b))"
proof -
  let ?d = "sim_sell_data ''m'' 1 ''900000'' ''-100000''"
  have h1: "\<not> truthy (sd_relatedBuyTradeId ?d)"
    by (simp add: sim_sell_data_def truthy_def)
  have h2: "distinct (map tradeId (trades two_open_buys))"
    by (simp add: two_open_buys_trades)
  have "\<exists>x\<in>set (trades two_open_buys). open_buy_for ''m'' 1 x"
    by (simp add: two_open_buys_def open_buy_for_def ledger_defs)
  then have h3: "\<exists>x\<in>set (trades two_open_buys).
      open_buy_for (sd_marketSlug ?d) (sd_outcome ?d) x"
    by (simp add: sim_sell_data_def)
  from recordSell_links_earliest_open_buy [OF h1 h2 h3, of "''s1''" "''t3''"] h1 h2 h3
  show ?thesis
    by (simp add: sell_without_link_def sim_sell_data_def or_null_def or_default_def truthy_def)
qed

text \<open>
  Claim C6 as stated fails: with two OPEN BUYs for market \<open>m\<close>, outcome \<open>1\<close>, recorded in the
  order \<open>b1\<close>, \<open>b2\<close>, a SELL without an explicit link is linked to \<open>b1\<close>, the older one, and
  the most recent OPEN BUY \<open>b2\<close> stays OPEN.
\<close>

theorem recordSell_most_recent_counterexample:
  "map tradeId (trades two_open_buys) = [''b1'', ''b2'']
   \<and> map (open_buy_for ''m'' 1) (trades two_open_buys) = [True, True]
   \<and> map tradeId (trades sell_without_link) = [''b1'', ''b2'', ''s1'']
   \<and> map status (trades sell_without_link) = [CLOSED, OPEN, CLOSED]
   \<and> relatedBuyTradeId (last (trades sell_without_link)) = Some ''b1''
   \<and> relatedBuyTradeId (last (trades sell_without_link)) \<noteq> Some ''b2''"
  by (simp add: sell_without_link_def two_open_buys_def open_buy_for_def ledger_defs)

subsection \<open>Open positions\<close>

lemma open_markets_snoc:
  "map marketSlug (filter (\<lambda>x. ttype x = BUY \<and> status x = OPEN) (xs @ [e]))
     = map marketSlug (filter (\<lambda>x. ttype x = BUY \<and> status x = OPEN) xs)
       @ (if ttype e = BUY \<and> status e = OPEN then [marketSlug e] else [])"
  by simp

lemma closing_first_set:
  assumes "\<And>x. marketSlug (f x) = marketSlug x"
    and "\<And>x. ttype (f x) = ttype x"
    and "\<And>x. status (f x) = CLOSED"
  shows "set (map marketSlug (filter (\<lambda>x. ttype x = BUY \<and> status x = OPEN) (update_first p f xs)))
         \<subseteq> set (map marketSlug (filter (\<lambda>x. ttype x = BUY \<and> status x = OPEN) xs))"
  using assms by (induction xs) auto

lemma closing_first_distinct:
  assumes "\<And>x. marketSlug (f x) = marketSlug x"
    and "\<And>x. ttype (f x) = ttype x"
    and "\<And>x. status (f x) = CLOSED"
    and "distinct (map marketSlug (filter (\<lambda>x. ttype x = BUY \<and> status x = OPEN) xs))"
  shows "distinct (map marketSlug (filter (\<lambda>x. ttype x = BUY \<and> status x = OPEN)
           (update_first p f xs)))"
  using assms(4)
proof (induction xs)
  case Nil
  show ?case by simp
next
  case (Cons x xs)
  show ?case
  proof (cases "p x")
    case True
    from Cons.prems have "distinct (map marketSlug
        (filter (\<lambda>x. ttype x = BUY \<and> status x = OPEN) xs))"
      by (auto split: if_splits)
    with True show ?thesis by (simp add: assms(3))
  next
    case False
    from Cons.prems have d: "distinct (map marketSlug
        (filter (\<lambda>x. ttype x = BUY \<and> status x = OPEN) xs))"
      by (auto split: if_splits)
    note ih = Cons.IH [OF d]
    from closing_first_set [of f p xs, OF assms(1-3)]
    have sub: "set (map marketSlug (filter (\<lambda>x. ttype x = BUY \<and> status x = OPEN)
                 (update_first p f xs)))
               \<subseteq> set (map marketSlug (filter (\<lambda>x. ttype x = BUY \<and> status x = OPEN) xs))" .
    from False Cons.prems ih sub show ?thesis
      by (auto split: if_splits)
  qed
qed

lemma relink_last_open:
  "map marketSlug (filter (\<lambda>x. ttype x = BUY \<and> status x = OPEN)
      (map_last (\<lambda>x. x\<lparr>relatedBuyTradeId := v\<rparr>) xs))
   = map marketSlug (filter (\<lambda>x. ttype x = BUY \<and> status x = OPEN) xs)"
proof (cases "xs = []")
  case True
  then show ?thesis by simp
next
  case False
  then have "xs = butlast xs @ [last xs]" by simp
  then obtain ys y where "xs = ys @ [y]" by blast
  then show ?thesis by (simp add: map_last_snoc)
qed

lemma closeTrade_open_markets:
  "distinct (open_markets t) \<Longrightarrow> distinct (open_markets (snd (closeTrade tid d now t)))"
  unfolding open_markets_def getOpenPositions_def closeTrade_def save_def
  by (auto split: option.split intro!: closing_first_distinct)

lemma recordBuy_open_markets:
  "open_markets (snd (recordBuy newId now d t)) = open_markets t @ [bd_marketSlug d]"
  by (simp add: open_markets_def getOpenPositions_def recordBuy_def save_def Let_def)

lemma recordSell_open_markets:
  assumes "distinct (open_markets t)"
  shows "distinct (open_markets (snd (recordSell newId now d t)))"
proof -
  define s0 where "s0 = \<lparr> tradeId = newId, ttype = SELL, timestamp = now,
      marketSlug = sd_marketSlug d, outcome = sd_outcome d,
      outcomeLabel = outcome_label (sd_outcome d), investmentAmount = None,
      returnAmount = or_null (sd_returnAmount d),
      actualReturnReceived = or_null (sd_actualReturnReceived d),
      txHash = or_null (sd_txHash d),
      targetWalletAction = or_default (sd_targetWalletAction d) ''CLOSE_POSITION'',
      replicationReason = or_default (sd_replicationReason d) ''Target closed position'',
      relatedBuyTradeId = or_null (sd_relatedBuyTradeId d),
      investedAmount = or_null (sd_investedAmount d),
      pnlAmount = or_null (sd_pnlAmount d), status = CLOSED, realizedPnL = None,
      closedAt = None, closeTxHash = None, exitPrice = or_null (sd_exitPrice d) \<rparr>"
  define t1 where "t1 = t\<lparr>trades := trades t @ [s0]\<rparr>"
  have "open_markets t1 = open_markets t"
    by (simp add: t1_def s0_def open_markets_def getOpenPositions_def)
  with assms have d1: "distinct (open_markets t1)" by simp
  have c: "distinct (open_markets (snd (closeTrade tid cd now t1)))" for tid cd
    using closeTrade_open_markets [OF d1] .
  have r: "open_markets (u\<lparr>trades := map_last (\<lambda>x. x\<lparr>relatedBuyTradeId := v\<rparr>) (trades u)\<rparr>)
      = open_markets u" for u v
    by (simp add: open_markets_def getOpenPositions_def relink_last_open)
  have sv: "open_markets (save u) = open_markets u" for u
    by (simp add: open_markets_def getOpenPositions_def save_def)
  show ?thesis
    unfolding recordSell_def Let_def s0_def [symmetric] t1_def [symmetric]
    by (simp add: sv r c d1 split: option.split)
qed

text \<open>
  Claim C8, as the code has it. The ledger has no check of its own: \<^verbatim>\<open>recordSell\<close> and
  \<^verbatim>\<open>closeTrade\<close> never add an open BUY, and \<^verbatim>\<open>recordBuy\<close> always does. So for every
  sequence of \<^verbatim>\<open>recordBuy\<close>, \<^verbatim>\<open>recordSell\<close> and \<^verbatim>\<open>closeTrade\<close> calls in which \<^verbatim>\<open>recordBuy\<close> is
  only called for a market that has no open BUY at that moment, \<^verbatim>\<open>getOpenPositions\<close> never
  holds two OPEN BUY entries of one market, provided it held none at the start.
\<close>

theorem guarded_buys_keep_one_open_per_market:
  "distinct (open_markets t) \<Longrightarrow> buys_guarded ops t \<Longrightarrow> distinct (open_markets (run_ops ops t))"
proof (induction ops arbitrary: t)
  case Nil
  then show ?case by simp
next
  case (Cons x xs)
  show ?case
  proof (cases x)
    case (RecordBuy newId now d)
    with Cons.prems have fresh: "bd_marketSlug d \<notin> set (open_markets t)"
      and rest: "buys_guarded xs (apply_op x t)" by simp_all
    from Cons.prems(1) fresh RecordBuy have "distinct (open_markets (apply_op x t))"
      by (simp add: recordBuy_open_markets)
    from Cons.IH [OF this rest] show ?thesis by simp
  next
    case (RecordSell newId now d)
    with Cons.prems have rest: "buys_guarded xs (apply_op x t)" by simp
    from Cons.prems(1) RecordSell have "distinct (open_markets (apply_op x t))"
      by (simp add: recordSell_open_markets)
    from Cons.IH [OF this rest] show ?thesis by simp
  next
    case (CloseTrade tid d now)
    with Cons.prems have rest: "buys_guarded xs (apply_op x t)" by simp
    from Cons.prems(1) CloseTrade have "distinct (open_markets (apply_op x t))"
      by (simp add: closeTrade_open_markets)
    from Cons.IH [OF this rest] show ?thesis by simp
  qed
qed

text \<open>
  The theorem on a fresh ledger: buy a market, sell it, buy it again on the other side.
\<close>

theorem guarded_buys_keep_one_open_per_market_witness:
  "distinct (open_markets new_tracker)
   \<and> buys_guarded buy_sell_buy new_tracker
   \<and> distinct (open_markets (run_ops buy_sell_buy new_tracker))
   \<and> open_markets (run_ops buy_sell_buy new_tracker) = [''m'']"
proof -
  have h1: "distinct (open_markets new_tracker)"
    by (simp add: open_markets_def getOpenPositions_def new_tracker_def)
  have h2: "buys_guarded buy_sell_buy new_tracker"
    by (simp add: buy_sell_buy_def open_markets_def getOpenPositions_def ledger_defs)
  have h3: "open_markets (run_ops buy_sell_buy new_tracker) = [''m'']"
    by (simp add: buy_sell_buy_def open_markets_def getOpenPositions_def ledger_defs)
  from guarded_buys_keep_one_open_per_market [OF h1 h2] h1 h2 h3 show ?thesis by simp
qed

text \<open>
  Claim C8 as stated fails: two \<^verbatim>\<open>recordBuy\<close> calls for the same market on a fresh ledger
  leave two OPEN BUY entries of that market in \<^verbatim>\<open>getOpenPositions\<close>.
\<close>

theorem two_open_buys_one_market_counterexample:
  "two_open_buys
     = run_ops [RecordBuy ''b1'' ''t1'' (sim_buy_data ''m'' 1 ''1000000''),
                RecordBuy ''b2'' ''t2'' (sim_buy_data ''m'' 1 ''2000000'')] new_tracker
   \<and> map marketSlug (getOpenPositions two_open_buys) = [''m'', ''m'']
   \<and> \<not> distinct (map marketSlug (getOpenPositions two_open_buys))"
  by (simp add: two_open_buys_def getOpenPositions_def ledger_defs)

subsection \<open>Win rate\<close>

lemma profitable_iff: "profitable t = positive_integer (realizedPnL t)"
proof (cases "truthy (realizedPnL t)")
  case True
  then show ?thesis by (simp add: profitable_def positive_integer_def)
next
  case False
  then have "js_BigInt (realizedPnL t) = None \<or> js_BigInt (realizedPnL t) = Some 0"
    by (cases "realizedPnL t") (auto simp: truthy_def js_BigInt_def BigInt_empty)
  with False show ?thesis by (auto simp: profitable_def positive_integer_def)
qed

lemma closed_buys_filter:
  "filter (\<lambda>x. status x = CLOSED) (filter (\<lambda>x. ttype x = BUY) ts)
   = filter (\<lambda>x. ttype x = BUY \<and> status x = CLOSED) ts"
  by (induction ts) auto

lemma winRate_updateStats:
  "winRate (updateStats (trades t))
     = (if getClosedPositions t = [] then 0
        else toFixed 2
               (js_mul (js_div (rat_of_nat (length (filter (\<lambda>x. positive_integer (realizedPnL x))
                                                     (getClosedPositions t))))
                               (rat_of_nat (length (getClosedPositions t)))) 100))"
proof -
  have p: "profitable = (\<lambda>x. positive_integer (realizedPnL x))"
    by (rule ext) (rule profitable_iff)
  show ?thesis
    by (simp add: updateStats_def Let_def closed_buys_filter p getClosedPositions_def
        toFixed_zero)
qed

lemma win_ratio_bounds: "0 \<le> win_ratio t" "win_ratio t \<le> 1"
proof -
  show "0 \<le> win_ratio t" by (simp add: win_ratio_def)
  have "length (filter (\<lambda>x. positive_integer (realizedPnL x)) (getClosedPositions t))
      \<le> length (getClosedPositions t)"
    by (rule length_filter_le)
  then have "rat_of_nat (length (filter (\<lambda>x. positive_integer (realizedPnL x))
        (getClosedPositions t))) \<le> rat_of_nat (length (getClosedPositions t))"
    by (simp only: of_nat_le_iff)
  then show "win_ratio t \<le> 1"
    unfolding win_ratio_def by (simp add: divide_le_eq_1)
qed

text \<open>The percentage in double arithmetic: the quotient is rounded, then the product.\<close>

lemma double_percentage_close:
  assumes "0 \<le> q" "q \<le> 1"
  shows "0 \<le> js_mul (double_of q) 100"
    and "js_mul (double_of q) 100 \<le> 200"
    and "\<bar>js_mul (double_of q) 100 - 100 * q\<bar> \<le> 300 / 2 ^ 53"
proof -
  define d1 where "d1 = double_of q"
  define d2 where "d2 = double_of (d1 * 100)"
  have n1: "0 \<le> d1" unfolding d1_def using assms(1) by (rule double_of_nonneg)
  have c1: "\<bar>d1 - q\<bar> \<le> 1 / 2 ^ 53"
    unfolding d1_def using assms by (intro double_of_close_le) simp_all
  have s: "(1::rat) / 2 ^ 53 \<le> 1" by simp
  from c1 s assms(2) have u1: "d1 \<le> 2" by linarith
  have n2: "0 \<le> d2" unfolding d2_def using n1 by (intro double_of_nonneg) simp
  have c2: "\<bar>d2 - d1 * 100\<bar> \<le> 200 / 2 ^ 53"
    unfolding d2_def using n1 u1 by (intro double_of_close_le) simp_all
  have e: "js_mul (double_of q) 100 = d2" by (simp add: js_mul_def d1_def d2_def)
  show "0 \<le> js_mul (double_of q) 100" unfolding e by (rule n2)
  from c1 c2 show "\<bar>js_mul (double_of q) 100 - 100 * q\<bar> \<le> 300 / 2 ^ 53"
    unfolding e by linarith
  have "(1::rat) / 2 ^ 53 \<le> 1 / 100" and "(200::rat) / 2 ^ 53 \<le> 1" by simp_all
  with c1 c2 assms(2) show "js_mul (double_of q) 100 \<le> 200" unfolding e by linarith
qed

lemma win_percentage_nonneg: "0 \<le> win_percentage t"
  by (simp add: win_percentage_def win_ratio_def)

lemma winRate_close: "\<bar>winRate (updateStats (trades t)) - win_percentage t\<bar> \<le> 1 / 200 + 1 / 2 ^ 44"
proof (cases "getClosedPositions t = []")
  case True
  then show ?thesis by (simp add: winRate_updateStats win_percentage_def)
next
  case False
  define r where "r = js_mul (double_of (win_ratio t)) 100"
  note b = double_percentage_close [OF win_ratio_bounds, of t, folded r_def]
  have w: "winRate (updateStats (trades t)) = toFixed 2 r"
    using False by (simp add: winRate_updateStats r_def js_div_def win_ratio_def)
  have p: "win_percentage t = 100 * win_ratio t"
    using False by (simp add: win_percentage_def)
  have "\<bar>toFixed 2 r - r\<bar> \<le> 1 / 200 + 200 / 2 ^ 53"
    using b(1) b(2) by (rule toFixed_2_close)
  with b(3) have "\<bar>toFixed 2 r - 100 * win_ratio t\<bar> \<le> 1 / 200 + 500 / 2 ^ 53" by linarith
  moreover have "(500::rat) / 2 ^ 53 \<le> 1 / 2 ^ 44" by simp
  ultimately show ?thesis unfolding w p by linarith
qed

text \<open>
  Claim C9, as the code has it. The win rate of \<^verbatim>\<open>getStats\<close> is \<open>0\<close> when there is no
  closed BUY. Otherwise it is the quotient profitable-closed / total-closed, computed in
  double arithmetic, multiplied by \<open>100\<close> in double arithmetic and printed with two
  decimals: a percentage, within \<open>0.005 + 2^-44\<close> of \<open>100 * profitable-closed /
  total-closed\<close>. A closed BUY counts as profitable exactly when its realized PnL is the
  literal of a positive integer.
\<close>

theorem winRate_is_rounded_percentage:
  "winRate (fst (getStats t))
     = (if getClosedPositions t = [] then 0
        else toFixed 2
               (js_mul (js_div (rat_of_nat (length (filter (\<lambda>x. positive_integer (realizedPnL x))
                                                     (getClosedPositions t))))
                               (rat_of_nat (length (getClosedPositions t)))) 100))
   \<and> \<bar>winRate (fst (getStats t)) - win_percentage t\<bar> \<le> 1 / 200 + 1 / 2 ^ 44
   \<and> (if getClosedPositions t = [] then winRate (fst (getStats t)) = 0
       else win_percentage t = 100 * win_ratio t)
   \<and> profitable x = positive_integer (realizedPnL x)"
proof -
  have g: "winRate (fst (getStats t)) = winRate (updateStats (trades t))"
    by (simp add: getStats_def)
  have z: "getClosedPositions t = [] \<Longrightarrow> winRate (fst (getStats t)) = 0"
    unfolding g by (simp add: winRate_updateStats)
  have n: "getClosedPositions t \<noteq> [] \<Longrightarrow> win_percentage t = 100 * win_ratio t"
    by (simp add: win_percentage_def)
  from winRate_updateStats [of t] winRate_close [of t] z n profitable_iff [of x]
  show ?thesis unfolding g by simp
qed

lemma one_win_two_losses_closed:
  "map tradeId (getClosedPositions one_win_two_losses) = [''b1'', ''b2'', ''b3'']"
  "map realizedPnL (getClosedPositions one_win_two_losses)
     = [Some ''500000'', Some ''-500000'', Some ''-3000000'']"
  by (simp_all add: one_win_two_losses_def getClosedPositions_def ledger_defs)

lemma one_win_two_losses_counts:
  "length (filter (\<lambda>x. positive_integer (realizedPnL x))
     (getClosedPositions one_win_two_losses)) = 1"
  "length (getClosedPositions one_win_two_losses) = 3"
proof -
  have "map (\<lambda>x. positive_integer (realizedPnL x)) (getClosedPositions one_win_two_losses)
      = [True, False, False]"
    using one_win_two_losses_closed(2)
    by (auto simp: positive_integer_def BigInt_defs)
  then show "length (filter (\<lambda>x. positive_integer (realizedPnL x))
      (getClosedPositions one_win_two_losses)) = 1"
    by (auto simp: map_eq_Cons_conv)
  show "length (getClosedPositions one_win_two_losses) = 3"
    using one_win_two_losses_closed(1) by (auto simp: map_eq_Cons_conv)
qed

lemma one_win_two_losses_ratio: "win_ratio one_win_two_losses = 1 / 3"
  by (simp add: win_ratio_def one_win_two_losses_counts)

text \<open>
  The rounding of the two operations shows in the printed rate. One profitable position of
  three closed ones prints \<open>33.33\<close>. With \<open>23\<close> profitable positions of \<open>160\<close> the percentage
  is \<open>14.375\<close>, which would print as \<open>14.38\<close>; the double the code computes lies just below
  it and prints as \<open>14.37\<close>.
\<close>

lemma toFixed_2_one_third: "toFixed 2 (js_mul (js_div 1 3) 100) = 3333 / 100"
  by code_simp

lemma toFixed_2_23_of_160: "toFixed 2 (js_mul (js_div 23 160) 100) = 1437 / 100"
  by code_simp

text \<open>
  Claim C9 as stated fails: with one profitable and two losing closed positions the ratio
  profitable-closed / total-closed is \<open>1/3\<close>, and the win rate is \<open>33.33\<close>: neither the ratio
  nor the percentage \<open>100/3\<close>.
\<close>

theorem winRate_is_not_the_ratio_counterexample:
  "win_ratio one_win_two_losses = 1 / 3
   \<and> winRate (fst (getStats one_win_two_losses)) = 3333 / 100
   \<and> winRate (fst (getStats one_win_two_losses)) \<noteq> win_ratio one_win_two_losses
   \<and> winRate (fst (getStats one_win_two_losses)) \<noteq> 100 * win_ratio one_win_two_losses"
proof -
  have ne: "getClosedPositions one_win_two_losses \<noteq> []"
    using one_win_two_losses_closed(1) by auto
  have "winRate (fst (getStats one_win_two_losses)) = toFixed 2 (js_mul (js_div 1 3) 100)"
    using ne by (simp add: getStats_def winRate_updateStats one_win_two_losses_counts)
  then have "winRate (fst (getStats one_win_two_losses)) = 3333 / 100"
    by (simp only: toFixed_2_one_third)
  with one_win_two_losses_ratio show ?thesis by simp
qed

subsection \<open>Trade sizing\<close>

lemma ourInvestmentNumber_half_5_50: "ourInvestmentNumber half_5_50 = 5"
proof -
  have "js_mul 5 (1 / 2) = 5 / 2" by code_simp
  then show ?thesis by (simp add: ourInvestmentNumber_def half_5_50_def)
qed

lemma investment_half_5_50: "investment half_5_50 6 = Some 5000000"
proof -
  have "toFixed_units 6 5 = Some 5000000" by code_simp
  then show ?thesis by (simp add: investment_def ourInvestmentNumber_half_5_50)
qed

text \<open>
  Claim C1 at the specification's clamping example: the target invested \<open>200\<close>, multiplier
  \<open>0.5\<close>, minimum \<open>5\<close>, maximum \<open>50\<close>. \<^verbatim>\<open>simulateBuy\<close> sizes the trade at
  \<open>clamp (200 * 0.5) 5 50 = 50\<close>. \<^verbatim>\<open>replicateOpen\<close> has no target investment among its
  arguments and sizes every trade at \<open>clamp (MIN_BET_USDC * BET_MULTIPLIER)\<close>, here \<open>5\<close>: on a
  chain where every call succeeds it buys for \<open>5000000\<close> units of a six-decimal
  collateral, not for \<open>50000000\<close>.
\<close>

theorem live_bet_ignores_target_investment:
  "ourInvestment half_5_50 200 = 50
   \<and> ourInvestmentNumber half_5_50 = 5
   \<and> submitted (replicateOpen half_5_50 open_succeeds ''M2'' market_M2 1 started_bot)
       = [BuyCall ''0xM2'' 5000000 1 8820000]"
proof -
  have a: "ourInvestment half_5_50 200 = 50"
    by (simp add: ourInvestment_def half_5_50_def)
  have b: "ourInvestmentNumber half_5_50 = 5"
    by (rule ourInvestmentNumber_half_5_50)
  have s: "BigInt_of_Number (SLIPPAGE_BPS half_5_50) = Some 200"
    by (simp add: BigInt_of_Number_def half_5_50_def)
  have c: "submitted (replicateOpen half_5_50 open_succeeds ''M2'' market_M2 1 started_bot)
      = [BuyCall ''0xM2'' 5000000 1 8820000]"
    by (simp add: replicateOpen_def market_M2_def open_succeeds_def started_bot_def
        investment_half_5_50 s or_null_def truthy_def gas_ok_def bigint_div_def Let_def)
  from a b c show ?thesis by simp
qed

text \<open>
  Claim C5, as the code has it. There is no check of the limits: for every environment
  whose minimum exceeds its maximum, the start of the bot fails only when \<^verbatim>\<open>RPC_URL\<close>,
  \<^verbatim>\<open>TARGET_WALLET\<close> or \<^verbatim>\<open>PRIVATE_KEY\<close> is missing or invalid, and otherwise the
  configuration is accepted and both sizers return the minimum, whatever the target
  invested.
\<close>

theorem min_over_max_is_accepted:
  assumes "MAX_BET_USDC (read_config env) < MIN_BET_USDC (read_config env)"
  shows "case startup isAddress env of
           Inl e \<Rightarrow> \<not> truthy (env_RPC_URL env)
                    \<or> \<not> truthy (env_TARGET_WALLET env)
                    \<or> (\<exists>a. env_TARGET_WALLET env = Some a \<and> \<not> isAddress a)
                    \<or> \<not> truthy (env_PRIVATE_KEY env)
         | Inr cfg \<Rightarrow> cfg = read_config env
                    \<and> ourInvestmentNumber cfg = MIN_BET_USDC cfg
                    \<and> ourInvestment cfg targetInvestment = MIN_BET_USDC cfg"
proof -
  from assms have "ourInvestmentNumber (read_config env) = MIN_BET_USDC (read_config env)"
    and "ourInvestment (read_config env) targetInvestment = MIN_BET_USDC (read_config env)"
    by (simp_all add: ourInvestmentNumber_def ourInvestment_def)
  then show ?thesis
    by (auto simp: startup_def truthy_def split: option.splits)
qed

text \<open>
  The theorem at an environment with minimum \<open>50\<close> and maximum \<open>5\<close>.
\<close>

theorem min_over_max_is_accepted_witness:
  "MAX_BET_USDC (read_config env_min_over_max) < MIN_BET_USDC (read_config env_min_over_max)
   \<and> (case startup (\<lambda>a. True) env_min_over_max of
         Inl e \<Rightarrow> False
       | Inr cfg \<Rightarrow> cfg = read_config env_min_over_max
                  \<and> ourInvestmentNumber cfg = MIN_BET_USDC cfg
                  \<and> ourInvestment cfg 200 = MIN_BET_USDC cfg)"
proof -
  have h: "MAX_BET_USDC (read_config env_min_over_max)
      < MIN_BET_USDC (read_config env_min_over_max)"
    by (simp add: read_config_def env_min_over_max_def env_or_def)
  have ok: "startup (\<lambda>a. True) env_min_over_max = Inr (read_config env_min_over_max)"
    by (simp add: startup_def env_min_over_max_def truthy_def)
  from min_over_max_is_accepted [OF h, of "\<lambda>a. True" 200] h ok show ?thesis by simp
qed

text \<open>
  Claim C5 as stated fails: with minimum \<open>50\<close> and maximum \<open>5\<close> the bot starts, and both
  sizers produce \<open>50\<close> instead of an error.
\<close>

theorem min_over_max_counterexample:
  "MIN_BET_USDC (read_config env_min_over_max) = 50
   \<and> MAX_BET_USDC (read_config env_min_over_max) = 5
   \<and> startup (\<lambda>a. True) env_min_over_max = Inr (read_config env_min_over_max)
   \<and> ourInvestmentNumber (read_config env_min_over_max) = 50
   \<and> ourInvestment (read_config env_min_over_max) 200 = 50"
  by (simp add: startup_def read_config_def env_min_over_max_def env_or_def truthy_def
      ourInvestmentNumber_def ourInvestment_def)

subsection \<open>The virtual balance\<close>

lemma simulateBuy_insufficient:
  "balance s < ourInvestment cfg target
   \<Longrightarrow> simulateBuy cfg fmt newId now slug title oc label target s = (None, s)"
  by (simp add: simulateBuy_def)

lemma simulateBuy_balance:
  "balance (snd (simulateBuy cfg fmt newId now slug title oc label target s))
     = (if balance s < ourInvestment cfg target then balance s
        else balance s - ourInvestment cfg target)"
  by (simp add: simulateBuy_def Let_def)

lemma simulateBuy_positions:
  "positions (snd (simulateBuy cfg fmt newId now slug title oc label target s))
     = (if balance s < ourInvestment cfg target then positions s
        else (positions s)(slug \<mapsto>
          \<lparr> sp_outcome = oc, sp_outcomeLabel = label,
            sp_invested = ourInvestment cfg target,
            sp_tokens = ourInvestment cfg target
                        - ourInvestment cfg target * (SLIPPAGE_BPS cfg / 10000),
            sp_entryPrice = 1, sp_marketTitle = title \<rparr>))"
  by (simp add: simulateBuy_def Let_def)

lemma simulateSell_balance:
  "balance (snd (simulateSell cfg fmt newId now slug oc marketValue winningOutcome s))
     = (case positions s slug of
          None \<Rightarrow> balance s
        | Some p \<Rightarrow>
            if sp_outcome p = oc
            then balance s + netReturn_of cfg p oc marketValue winningOutcome
            else balance s)"
  by (simp add: simulateSell_def Let_def split: option.split)

lemma simulateSell_positions:
  "positions (snd (simulateSell cfg fmt newId now slug oc marketValue winningOutcome s))
     = (case positions s slug of
          None \<Rightarrow> positions s
        | Some p \<Rightarrow> if sp_outcome p = oc then (positions s)(slug := None) else positions s)"
  by (simp add: simulateSell_def Let_def split: option.split)

lemma sim_apply_balance_nonneg:
  assumes "0 \<le> balance s"
    and "case c of
           SimulateSell newId now slug oc marketValue winningOutcome \<Rightarrow>
             sale_return_nonneg cfg slug oc marketValue winningOutcome s
         | _ \<Rightarrow> True"
  shows "0 \<le> balance (sim_apply cfg fmt c s)"
proof (cases c)
  case (SimulateBuy newId now slug title oc label target)
  with assms(1) show ?thesis by (simp add: simulateBuy_balance)
next
  case (SimulateSell newId now slug oc marketValue winningOutcome)
  with assms show ?thesis
    by (auto simp: simulateSell_balance sale_return_nonneg_def split: option.splits if_splits)
qed

lemma sim_run_balance_nonneg:
  "0 \<le> balance s \<Longrightarrow> returns_nonneg cfg fmt calls s \<Longrightarrow> 0 \<le> balance (sim_run cfg fmt calls s)"
proof (induction cfg fmt calls s rule: returns_nonneg.induct)
  case (1 cfg fmt s)
  then show ?case by simp
next
  case (2 cfg fmt newId now slug oc marketValue winningOutcome cs s)
  let ?c = "SimulateSell newId now slug oc marketValue winningOutcome"
  from "2.prems" have "0 \<le> balance (sim_apply cfg fmt ?c s)"
    using sim_apply_balance_nonneg [where s = s and c = ?c and cfg = cfg and fmt = fmt] by simp
  with "2.IH" "2.prems" show ?case by simp
next
  case (3 cfg fmt v va vb vc vd ve vf cs s)
  let ?c = "SimulateBuy v va vb vc vd ve vf"
  from "3.prems" have "0 \<le> balance (sim_apply cfg fmt ?c s)"
    using sim_apply_balance_nonneg [where s = s and c = ?c and cfg = cfg and fmt = fmt] by simp
  with "3.IH" "3.prems" show ?case by simp
qed

lemma netReturn_nonneg:
  assumes fee: "0 \<le> FEE_BPS cfg" "FEE_BPS cfg \<le> 10000"
    and inv: "0 \<le> sp_invested p"
    and mv: "case marketValue of None \<Rightarrow> True | Some v \<Rightarrow> 0 \<le> v"
  shows "0 \<le> netReturn_of cfg p oc marketValue winningOutcome"
proof -
  from fee have k: "0 \<le> 1 - FEE_BPS cfg / 10000" by simp
  have r: "0 \<le> returnAmount_of cfg p oc marketValue winningOutcome"
    using inv mv k by (auto simp: returnAmount_of_def split: option.splits)
  have "netReturn_of cfg p oc marketValue winningOutcome
      = returnAmount_of cfg p oc marketValue winningOutcome * (1 - FEE_BPS cfg / 10000)"
    by (simp add: netReturn_of_def Let_def algebra_simps)
  with r k show ?thesis by simp
qed

lemma sim_apply_invested_nonneg:
  assumes "0 \<le> MIN_BET_USDC cfg" and "invested_nonneg s"
  shows "invested_nonneg (sim_apply cfg fmt c s)"
proof (cases c)
  case (SimulateBuy newId now slug title oc label target)
  have "0 \<le> ourInvestment cfg target"
    using assms(1) by (simp add: ourInvestment_def)
  with assms(2) SimulateBuy show ?thesis
    by (auto simp: invested_nonneg_def simulateBuy_positions)
next
  case (SimulateSell newId now slug oc marketValue winningOutcome)
  with assms(2) show ?thesis
    by (auto simp: invested_nonneg_def simulateSell_positions split: option.splits if_splits)
qed

lemma config_gives_returns_nonneg:
  assumes "0 \<le> FEE_BPS cfg" "FEE_BPS cfg \<le> 10000" "0 \<le> MIN_BET_USDC cfg"
  shows "invested_nonneg s \<Longrightarrow> market_values_nonneg calls \<Longrightarrow> returns_nonneg cfg fmt calls s"
proof (induction calls arbitrary: s)
  case Nil
  show ?case by simp
next
  case (Cons c cs)
  have next_ok: "invested_nonneg (sim_apply cfg fmt c s)"
    using sim_apply_invested_nonneg [OF assms(3) Cons.prems(1)] .
  show ?case
  proof (cases c)
    case (SimulateBuy newId now slug title oc label target)
    with Cons.prems(2) have "market_values_nonneg cs" by simp
    from Cons.IH [OF next_ok this] SimulateBuy show ?thesis by simp
  next
    case (SimulateSell newId now slug oc marketValue winningOutcome)
    with Cons.prems(2) have rest: "market_values_nonneg cs"
      and mv: "case marketValue of None \<Rightarrow> True | Some v \<Rightarrow> 0 \<le> v"
      by (cases marketValue; simp)+
    have "sale_return_nonneg cfg slug oc marketValue winningOutcome s"
      using Cons.prems(1) netReturn_nonneg [OF assms(1,2) _ mv]
      by (auto simp: sale_return_nonneg_def invested_nonneg_def split: option.splits)
    with Cons.IH [OF next_ok rest] SimulateSell show ?thesis by simp
  qed
qed

text \<open>
  Claim C10. \<^verbatim>\<open>simulateBuy\<close> returns \<^verbatim>\<open>false\<close> and leaves the balance, the positions and the
  ledger as they are whenever the balance is less than the clamped investment. So, from
  a non-negative balance, every sequence of \<^verbatim>\<open>simulateBuy\<close> and \<^verbatim>\<open>simulateSell\<close> calls whose
  sales return non-negative amounts after fees ends with a non-negative balance. The
  sales do return non-negative amounts when the fee lies between \<open>0\<close> and \<open>10000\<close> basis
  points, the minimum bet is not negative, no held position has a negative investment
  and no sale is given a negative market value.
\<close>

theorem virtual_balance_never_negative:
  "(balance s < ourInvestment cfg target
      \<longrightarrow> simulateBuy cfg fmt newId now slug title oc label target s = (None, s))
   \<and> (0 \<le> balance s \<and> returns_nonneg cfg fmt calls s
      \<longrightarrow> 0 \<le> balance (sim_run cfg fmt calls s))
   \<and> (0 \<le> FEE_BPS cfg \<and> FEE_BPS cfg \<le> 10000 \<and> 0 \<le> MIN_BET_USDC cfg
      \<and> invested_nonneg s \<and> market_values_nonneg calls
      \<longrightarrow> returns_nonneg cfg fmt calls s)"
  using simulateBuy_insufficient [where s = s and cfg = cfg and target = target]
    sim_run_balance_nonneg [where s = s and cfg = cfg and fmt = fmt and calls = calls]
    config_gives_returns_nonneg [where s = s and cfg = cfg and fmt = fmt and calls = calls]
  by blast

lemma start_half_5_50:
  "balance (new_simulator half_5_50 new_tracker) = 100"
  "positions (new_simulator half_5_50 new_tracker) = Map.empty"
  by (simp_all add: new_simulator_def half_5_50_def)

lemma three_buys_one_sale_balance:
  "balance (sim_run half_5_50 plain_format three_buys_one_sale
      (new_simulator half_5_50 new_tracker)) = 49005 / 1000"
proof -
  have i: "ourInvestment half_5_50 200 = 50"
    by (simp add: ourInvestment_def half_5_50_def)
  show ?thesis
    by (simp add: three_buys_one_sale_def simulateBuy_balance simulateBuy_positions
        simulateSell_balance simulateSell_positions start_half_5_50 i netReturn_of_def
        returnAmount_of_def Let_def)
      (simp add: half_5_50_def)
qed

text \<open>
  The theorem at the example configuration with a starting balance of \<open>100\<close>: two
  purchases of \<open>50\<close> empty the balance, the third is refused, and the sale of a won
  market credits \<open>50 * 0.99 * 0.99\<close>.
\<close>

theorem virtual_balance_never_negative_witness:
  "balance ((new_simulator half_5_50 new_tracker)\<lparr>balance := 0\<rparr>) < ourInvestment half_5_50 200
   \<and> simulateBuy half_5_50 plain_format ''b3'' ''t3'' ''M3'' ''Market 3'' 1 ''YES'' 200
        ((new_simulator half_5_50 new_tracker)\<lparr>balance := 0\<rparr>)
       = (None, (new_simulator half_5_50 new_tracker)\<lparr>balance := 0\<rparr>)
   \<and> 0 \<le> balance (new_simulator half_5_50 new_tracker)
   \<and> 0 \<le> FEE_BPS half_5_50 \<and> FEE_BPS half_5_50 \<le> 10000 \<and> 0 \<le> MIN_BET_USDC half_5_50
   \<and> invested_nonneg (new_simulator half_5_50 new_tracker)
   \<and> market_values_nonneg three_buys_one_sale
   \<and> returns_nonneg half_5_50 plain_format three_buys_one_sale
        (new_simulator half_5_50 new_tracker)
   \<and> 0 \<le> balance (sim_run half_5_50 plain_format three_buys_one_sale
        (new_simulator half_5_50 new_tracker))
   \<and> balance (sim_run half_5_50 plain_format three_buys_one_sale
        (new_simulator half_5_50 new_tracker)) = 49005 / 1000"
proof -
  let ?s = "new_simulator half_5_50 new_tracker"
  have h1: "balance (?s\<lparr>balance := 0\<rparr>) < ourInvestment half_5_50 200"
    by (simp add: ourInvestment_def half_5_50_def)
  have h2: "0 \<le> balance ?s" by (simp add: start_half_5_50)
  have h3: "0 \<le> FEE_BPS half_5_50" "FEE_BPS half_5_50 \<le> 10000" "0 \<le> MIN_BET_USDC half_5_50"
    by (simp_all add: half_5_50_def)
  have h4: "invested_nonneg ?s" by (simp add: invested_nonneg_def start_half_5_50)
  have h5: "market_values_nonneg three_buys_one_sale"
    by (simp add: three_buys_one_sale_def)
  from virtual_balance_never_negative
    [where s = "?s\<lparr>balance := 0\<rparr>" and cfg = half_5_50 and target = 200
       and fmt = plain_format and newId = "''b3''" and now = "''t3''" and slug = "''M3''"
       and title = "''Market 3''" and oc = 1 and label = "''YES''"]
  have a: "simulateBuy half_5_50 plain_format ''b3'' ''t3'' ''M3'' ''Market 3'' 1 ''YES'' 200
        (?s\<lparr>balance := 0\<rparr>) = (None, ?s\<lparr>balance := 0\<rparr>)"
    using h1 by blast
  from virtual_balance_never_negative
    [where s = ?s and cfg = half_5_50 and fmt = plain_format and calls = three_buys_one_sale]
  have b: "returns_nonneg half_5_50 plain_format three_buys_one_sale ?s"
    and c: "returns_nonneg half_5_50 plain_format three_buys_one_sale ?s
        \<Longrightarrow> 0 \<le> balance (sim_run half_5_50 plain_format three_buys_one_sale ?s)"
    using h2 h3 h4 h5 by blast+
  from a b c [OF b] h1 h2 h3 h4 h5 three_buys_one_sale_balance show ?thesis by simp
qed

subsection \<open>What the ledger operations append\<close>

lemma update_first_view:
  assumes "\<And>x. g (f x) = g x"
  shows "map g (update_first p f xs) = map g xs"
  using assms by (induction xs) auto

lemma map_last_view:
  assumes "\<And>x. g (f x) = g x"
  shows "map g (map_last f xs) = map g xs"
proof (cases "xs = []")
  case True
  then show ?thesis by simp
next
  case False
  then have "xs = butlast xs @ [last xs]" by simp
  then obtain ys y where "xs = ys @ [y]" by blast
  with assms show ?thesis by (simp add: map_last_snoc)
qed

lemma ledger_view_save: "ledger_view (save t) = ledger_view t"
  by (simp add: ledger_view_def save_def)

lemma ledger_view_closeTrade: "ledger_view (snd (closeTrade tid d now t)) = ledger_view t"
  by (simp add: ledger_view_def closeTrade_def save_def update_first_view entry_view_def
      split: option.split)

lemma ledger_view_recordBuy:
  "ledger_view (snd (recordBuy newId now d t))
     = ledger_view t @ [(BUY, bd_marketSlug d, or_default (bd_targetWalletAction d) ''NEW_POSITION'')]"
  by (simp add: ledger_view_def recordBuy_def save_def Let_def entry_view_def)

lemma ledger_view_recordSell:
  "ledger_view (snd (recordSell newId now d t))
     = ledger_view t
       @ [(SELL, sd_marketSlug d, or_default (sd_targetWalletAction d) ''CLOSE_POSITION'')]"
proof -
  define s0 where "s0 = \<lparr> tradeId = newId, ttype = SELL, timestamp = now,
      marketSlug = sd_marketSlug d, outcome = sd_outcome d,
      outcomeLabel = outcome_label (sd_outcome d), investmentAmount = None,
      returnAmount = or_null (sd_returnAmount d),
      actualReturnReceived = or_null (sd_actualReturnReceived d),
      txHash = or_null (sd_txHash d),
      targetWalletAction = or_default (sd_targetWalletAction d) ''CLOSE_POSITION'',
      replicationReason = or_default (sd_replicationReason d) ''Target closed position'',
      relatedBuyTradeId = or_null (sd_relatedBuyTradeId d),
      investedAmount = or_null (sd_investedAmount d),
      pnlAmount = or_null (sd_pnlAmount d), status = CLOSED, realizedPnL = None,
      closedAt = None, closeTxHash = None, exitPrice = or_null (sd_exitPrice d) \<rparr>"
  define t1 where "t1 = t\<lparr>trades := trades t @ [s0]\<rparr>"
  have v1: "ledger_view t1
      = ledger_view t
        @ [(SELL, sd_marketSlug d, or_default (sd_targetWalletAction d) ''CLOSE_POSITION'')]"
    by (simp add: t1_def s0_def ledger_view_def entry_view_def)
  have r: "ledger_view (u\<lparr>trades := map_last (\<lambda>x. x\<lparr>relatedBuyTradeId := v\<rparr>) (trades u)\<rparr>)
      = ledger_view u" for u v
    by (simp add: ledger_view_def map_last_view entry_view_def)
  show ?thesis
    unfolding recordSell_def Let_def s0_def [symmetric] t1_def [symmetric]
    by (simp add: ledger_view_save r ledger_view_closeTrade v1 split: option.split)
qed

subsection \<open>What a leg appends\<close>



lemma simulateBuy_appends:
  "ledger_view (tradeTracker (snd (simulateBuy cfg fmt newId now slug title oc label target s)))
     = (if balance s < ourInvestment cfg target then ledger_view (tradeTracker s)
        else ledger_view (tradeTracker s) @ [(BUY, slug, ''NEW_POSITION'')])"
  by (simp add: simulateBuy_def Let_def ledger_view_recordBuy or_default_def)

lemma simulateSell_appends:
  "ledger_view (tradeTracker (snd (simulateSell cfg fmt newId now slug oc mv w s)))
     = (case positions s slug of
          None \<Rightarrow> ledger_view (tradeTracker s)
        | Some p \<Rightarrow>
            if sp_outcome p = oc
            then ledger_view (tradeTracker s)
                 @ [(SELL, slug, if w \<noteq> None then ''MARKET_RESOLVED'' else ''CLOSE_POSITION'')]
            else ledger_view (tradeTracker s))"
  by (simp add: simulateSell_def Let_def ledger_view_recordSell or_default_def
      split: option.split)

lemma live_reading_fields:
  assumes "live_reading pos = Some (slug, market, oc, bal)"
  shows "\<exists>yes no y n. lf_market pos = Some market \<and> or_null (lm_slug market) = Some slug
           \<and> lm_status market \<noteq> ''RESOLVED'' \<and> \<not> lm_closed market
           \<and> lf_tokensBalance pos = Some (yes, no)
           \<and> balance_field yes = Some y \<and> balance_field no = Some n
           \<and> targetOutcome_of y n = Some (oc, bal)"
  using assms unfolding live_reading_def
  by (auto split: option.splits if_splits prod.splits)

lemma processPosition_reading:
  assumes "live_reading pos = Some (slug, market, oc, bal)"
  shows "processPosition cfg cw ow pos st =
     (case lastSeenPositions st slug of
        None \<Rightarrow>
          (let st1 = (if isInitialSync st then st else replicateOpen cfg ow slug market oc st)
           in st1\<lparr>lastSeenPositions := (lastSeenPositions st1)(slug \<mapsto>
                \<lparr> ls_outcomeIndex = oc, ls_tokensBalance = bal \<rparr>)\<rparr>)
      | Some lastSeen \<Rightarrow>
          if ls_outcomeIndex lastSeen \<noteq> oc then
            (let st1 = replicateClose cw slug market (ls_outcomeIndex lastSeen) st;
                 st2 = replicateOpen cfg ow slug market oc st1
             in st2\<lparr>lastSeenPositions := (lastSeenPositions st2)(slug \<mapsto>
                  \<lparr> ls_outcomeIndex = oc, ls_tokensBalance = bal \<rparr>)\<rparr>)
          else st\<lparr>lastSeenPositions := (lastSeenPositions st)(slug \<mapsto>
                 \<lparr> ls_outcomeIndex = oc, ls_tokensBalance = bal \<rparr>)\<rparr>)"
proof -
  from live_reading_fields [OF assms] obtain yes no y n
    where f: "lf_market pos = Some market" "or_null (lm_slug market) = Some slug"
      "lm_status market \<noteq> ''RESOLVED''" "\<not> lm_closed market"
      "lf_tokensBalance pos = Some (yes, no)"
      "balance_field yes = Some y" "balance_field no = Some n"
      "targetOutcome_of y n = Some (oc, bal)"
    by blast
  show ?thesis
    unfolding processPosition_def by (simp add: f Let_def)
qed

lemma sim_reading_fields:
  assumes "sim_reading pos = Some (slug, market, oc)"
  shows "\<exists>y n. sf_market pos = Some market \<and> or_null (sm_slug market) = Some slug
           \<and> sf_tokensBalance pos = Some (y, n) \<and> sim_targetOutcome y n = Some oc"
  using assms unfolding sim_reading_def
  by (auto split: option.splits prod.splits)

lemma simulation_round_reading:
  assumes "sim_reading pos = Some (slug, market, oc)"
  shows "simulation_round cfg fmt d pos s =
     (let targetInvestment = (case (if oc = 0 then sf_cost_no pos else sf_cost_yes pos) of
                                Some c \<Rightarrow> c / 1000000
                              | None \<Rightarrow> MIN_BET_USDC cfg)
      in if sm_status market = ''RESOLVED'' then
           (case positions s slug of
              None \<Rightarrow> s
            | Some held \<Rightarrow>
                snd (simulateSell cfg fmt (sell_id d) (sell_now d) slug (sp_outcome held)
                       None (sm_winningOutcomeIndex market) s))
         else
           (case positions s slug of
              None \<Rightarrow>
                snd (simulateBuy cfg fmt (buy_id d) (buy_now d) slug (sm_title market)
                       oc (outcome_label oc) targetInvestment s)
            | Some ourPos \<Rightarrow>
                if sp_outcome ourPos \<noteq> oc then
                  snd (simulateBuy cfg fmt (buy_id d) (buy_now d) slug (sm_title market)
                         oc (outcome_label oc) targetInvestment
                         (snd (simulateSell cfg fmt (sell_id d) (sell_now d) slug
                                 (sp_outcome ourPos) (estimateMarketValue ourPos pos) None s)))
                else s))"
proof -
  from sim_reading_fields [OF assms] obtain y n
    where f: "sf_market pos = Some market" "or_null (sm_slug market) = Some slug"
      "sf_tokensBalance pos = Some (y, n)" "sim_targetOutcome y n = Some oc"
    by blast
  show ?thesis
    unfolding simulation_round_def by (simp add: f Let_def split: option.split)
qed

subsection \<open>Switching sides\<close>





lemma holding_bot_fields:
  "ourPositions holding_bot ''M2''
     = Some \<lparr> op_outcomeIndex = 1, op_amount = 5000000, op_marketAddress = ''0xM2'',
              op_collateralToken = ''0xUSDC'', op_decimals = 6,
              op_tradeId = Some ''trade_b'' \<rparr>"
  "lastSeenPositions holding_bot ''M2''
     = Some \<lparr> ls_outcomeIndex = 1, ls_tokensBalance = 9000000 \<rparr>"
  "bot_ledger_view holding_bot = [(BUY, ''M2'', ''NEW_POSITION'')]"
  "map call_kind (submitted holding_bot) = [BUY]"
  "isInitialSync holding_bot = False"
proof -
  have s: "BigInt_of_Number (SLIPPAGE_BPS half_5_50) = Some 200"
    by (simp add: BigInt_of_Number_def half_5_50_def)
  note defs = holding_bot_def replicateOpen_def market_M2_def open_succeeds_def
    started_bot_def investment_half_5_50 s or_null_def truthy_def gas_ok_def bigint_div_def
    Let_def
  show "ourPositions holding_bot ''M2''
     = Some \<lparr> op_outcomeIndex = 1, op_amount = 5000000, op_marketAddress = ''0xM2'',
              op_collateralToken = ''0xUSDC'', op_decimals = 6,
              op_tradeId = Some ''trade_b'' \<rparr>"
    by (simp add: defs recordBuy_def)
  show "lastSeenPositions holding_bot ''M2''
     = Some \<lparr> ls_outcomeIndex = 1, ls_tokensBalance = 9000000 \<rparr>"
    by (simp add: holding_bot_def)
  show "bot_ledger_view holding_bot = [(BUY, ''M2'', ''NEW_POSITION'')]"
    by (simp add: defs bot_ledger_view_def ledger_view_recordBuy or_default_def)
      (simp add: ledger_view_def new_tracker_def)
  show "map call_kind (submitted holding_bot) = [BUY]"
    by (simp add: defs call_kind_def)
  show "isInitialSync holding_bot = False"
    by (simp add: holding_bot_def)
qed

lemma balance_field_literals:
  "balance_field (Some ''0'') = Some 0"
  "balance_field (Some ''7000000'') = Some 7000000"
  "balance_field (Some ''9000000'') = Some 9000000"
  by (simp_all add: balance_field_def or_default_def BigInt_defs)



lemma holding_simulator_fields:
  "positions holding_simulator ''M2''
     = Some \<lparr> sp_outcome = 1, sp_outcomeLabel = ''YES'', sp_invested = 50, sp_tokens = 49,
              sp_entryPrice = 1, sp_marketTitle = ''Market 2'' \<rparr>"
  "balance holding_simulator = 50"
  "ledger_view (tradeTracker holding_simulator) = [(BUY, ''M2'', ''NEW_POSITION'')]"
proof -
  have i: "ourInvestment half_5_50 200 = 50"
    by (simp add: ourInvestment_def half_5_50_def)
  show "positions holding_simulator ''M2''
     = Some \<lparr> sp_outcome = 1, sp_outcomeLabel = ''YES'', sp_invested = 50, sp_tokens = 49,
              sp_entryPrice = 1, sp_marketTitle = ''Market 2'' \<rparr>"
    by (simp add: holding_simulator_def simulateBuy_positions i start_half_5_50)
      (simp add: half_5_50_def)
  show "balance holding_simulator = 50"
    by (simp add: holding_simulator_def simulateBuy_balance i start_half_5_50)
  show "ledger_view (tradeTracker holding_simulator) = [(BUY, ''M2'', ''NEW_POSITION'')]"
    by (simp add: holding_simulator_def simulateBuy_appends i start_half_5_50)
      (simp add: new_simulator_def ledger_view_def new_tracker_def)
qed



subsection \<open>Resolved markets\<close>

lemma live_skips_resolved:
  assumes "lf_market pos = Some market"
    and "lm_status market = ''RESOLVED'' \<or> lm_closed market"
  shows "processPosition cfg cw ow pos st = st"
  using assms unfolding processPosition_def by (auto split: option.split)

lemma sim_settles_resolved:
  assumes r: "sim_reading pos = Some (slug, market, oc)"
    and res: "sm_status market = ''RESOLVED''"
    and held: "positions s slug = Some held"
  shows "simulation_round cfg fmt d pos s
           = snd (simulateSell cfg fmt (sell_id d) (sell_now d) slug (sp_outcome held) None
                    (sm_winningOutcomeIndex market) s)"
    and "positions (simulation_round cfg fmt d pos s) slug = None"
    and "ledger_view (tradeTracker (simulation_round cfg fmt d pos s))
           = ledger_view (tradeTracker s)
             @ [(SELL, slug, if sm_winningOutcomeIndex market \<noteq> None then ''MARKET_RESOLVED''
                             else ''CLOSE_POSITION'')]"
    and "balance (simulation_round cfg fmt d pos s)
           = balance s
             + netReturn_of cfg held (sp_outcome held) None (sm_winningOutcomeIndex market)"
proof -
  show e: "simulation_round cfg fmt d pos s
           = snd (simulateSell cfg fmt (sell_id d) (sell_now d) slug (sp_outcome held) None
                    (sm_winningOutcomeIndex market) s)"
    using simulation_round_reading [OF r, of cfg fmt d s] res held by (simp add: Let_def)
  show "positions (simulation_round cfg fmt d pos s) slug = None"
    unfolding e using held by (simp add: simulateSell_positions)
  show "ledger_view (tradeTracker (simulation_round cfg fmt d pos s))
           = ledger_view (tradeTracker s)
             @ [(SELL, slug, if sm_winningOutcomeIndex market \<noteq> None then ''MARKET_RESOLVED''
                             else ''CLOSE_POSITION'')]"
    unfolding e using held by (simp add: simulateSell_appends)
  show "balance (simulation_round cfg fmt d pos s)
           = balance s
             + netReturn_of cfg held (sp_outcome held) None (sm_winningOutcomeIndex market)"
    unfolding e using held by (simp add: simulateSell_balance)
qed

lemma sim_resolved_without_position:
  assumes r: "sim_reading pos = Some (slug, market, oc)"
    and res: "sm_status market = ''RESOLVED''"
    and none: "positions s slug = None"
  shows "simulation_round cfg fmt d pos s = s"
  using simulation_round_reading [OF r, of cfg fmt d s] res none by (simp add: Let_def)

lemma settlement_payout:
  "netReturn_of cfg held oc None (Some w)
     = (if w = oc
        then sp_invested held * (1 - FEE_BPS cfg / 10000) * (1 - FEE_BPS cfg / 10000)
        else 0)"
  by (simp add: netReturn_of_def returnAmount_of_def Let_def algebra_simps)

text \<open>
  Claim C2, as the code has it. The live bot skips a market that is resolved or closed:
  \<^verbatim>\<open>processPosition\<close> returns before it reads the balances, and no event, no trade and no
  change of state follows. The simulator settles it: when the feed still shows which side
  the target holds and a local position exists, \<^verbatim>\<open>runSimulation\<close> sells that position by
  resolution, which removes it, appends a SELL marked \<^verbatim>\<open>MARKET_RESOLVED\<close> (when the feed
  names the winning outcome) and credits the invested amount less the fee, taken twice, on
  a win and nothing on a loss; without a local position it does nothing.
\<close>

theorem resolved_market_live_skips_simulator_settles:
  "(lf_market pos = Some market \<and> (lm_status market = ''RESOLVED'' \<or> lm_closed market)
      \<longrightarrow> processPosition cfg cw ow pos st = st)
   \<and> (sim_reading spos = Some (slug, smarket, oc) \<and> sm_status smarket = ''RESOLVED''
      \<and> positions s slug = Some held
      \<longrightarrow> simulation_round cfg fmt d spos s
            = snd (simulateSell cfg fmt (sell_id d) (sell_now d) slug (sp_outcome held) None
                     (sm_winningOutcomeIndex smarket) s)
        \<and> positions (simulation_round cfg fmt d spos s) slug = None
        \<and> ledger_view (tradeTracker (simulation_round cfg fmt d spos s))
            = ledger_view (tradeTracker s)
              @ [(SELL, slug, if sm_winningOutcomeIndex smarket \<noteq> None
                              then ''MARKET_RESOLVED'' else ''CLOSE_POSITION'')]
        \<and> balance (simulation_round cfg fmt d spos s)
            = balance s
              + netReturn_of cfg held (sp_outcome held) None (sm_winningOutcomeIndex smarket))
   \<and> netReturn_of cfg held (sp_outcome held) None (Some w)
       = (if w = sp_outcome held
          then sp_invested held * (1 - FEE_BPS cfg / 10000) * (1 - FEE_BPS cfg / 10000)
          else 0)
   \<and> (sim_reading spos = Some (slug, smarket, oc) \<and> sm_status smarket = ''RESOLVED''
      \<and> positions s slug = None
      \<longrightarrow> simulation_round cfg fmt d spos s = s)"
  using live_skips_resolved [of pos market cfg cw ow st]
    sim_settles_resolved [of spos slug smarket oc s held cfg fmt d]
    sim_resolved_without_position [of spos slug smarket oc s cfg fmt d]
    settlement_payout [of cfg held "sp_outcome held" w]
  by blast

lemma sim_M2_resolved_reading:
  "sim_reading sim_M2_resolved
     = Some (''M2'', sim_market_M2\<lparr> sm_status := ''RESOLVED'',
                                     sm_winningOutcomeIndex := Some 1 \<rparr>, 1)"
  by (simp add: sim_reading_def sim_M2_resolved_def sim_market_M2_def or_null_def truthy_def
      sim_targetOutcome_def)

text \<open>
  The theorem at a bot and a simulator that hold the YES side of \<open>M2\<close>, resolved for YES.
\<close>

theorem resolved_market_live_skips_simulator_settles_witness:
  "lf_market M2_resolved = Some (market_M2\<lparr>lm_status := ''RESOLVED''\<rparr>)
   \<and> lm_status (market_M2\<lparr>lm_status := ''RESOLVED''\<rparr>) = ''RESOLVED''
   \<and> processPosition half_5_50 close_succeeds open_succeeds M2_resolved holding_bot
       = holding_bot
   \<and> sim_reading sim_M2_resolved
       = Some (''M2'', sim_market_M2\<lparr> sm_status := ''RESOLVED'',
                                       sm_winningOutcomeIndex := Some 1 \<rparr>, 1)
   \<and> map_option sp_invested (positions holding_simulator ''M2'') = Some 50
   \<and> positions
        (simulation_round half_5_50 plain_format some_draws sim_M2_resolved holding_simulator)
        ''M2'' = None
   \<and> ledger_view (tradeTracker
        (simulation_round half_5_50 plain_format some_draws sim_M2_resolved holding_simulator))
       = [(BUY, ''M2'', ''NEW_POSITION''), (SELL, ''M2'', ''MARKET_RESOLVED'')]
   \<and> balance
        (simulation_round half_5_50 plain_format some_draws sim_M2_resolved holding_simulator)
       = 50 + 49005 / 1000"
proof -
  let ?m = "market_M2\<lparr>lm_status := ''RESOLVED''\<rparr>"
  let ?sm = "sim_market_M2\<lparr> sm_status := ''RESOLVED'', sm_winningOutcomeIndex := Some 1 \<rparr>"
  let ?held = "\<lparr> sp_outcome = 1, sp_outcomeLabel = ''YES'', sp_invested = 50, sp_tokens = 49,
              sp_entryPrice = 1, sp_marketTitle = ''Market 2'' \<rparr>"
  have h1: "lf_market M2_resolved = Some ?m" by (simp add: M2_resolved_def)
  have h2: "lm_status ?m = ''RESOLVED''" by simp
  have g1: "sim_reading sim_M2_resolved = Some (''M2'', ?sm, 1)"
    by (rule sim_M2_resolved_reading)
  have g2: "sm_status ?sm = ''RESOLVED''" by simp
  have g3: "positions holding_simulator ''M2'' = Some ?held"
    by (rule holding_simulator_fields(1))
  note inst = resolved_market_live_skips_simulator_settles
    [where pos = M2_resolved and market = ?m and cfg = half_5_50 and cw = close_succeeds
       and ow = open_succeeds and st = holding_bot and spos = sim_M2_resolved
       and slug = "''M2''" and smarket = ?sm and oc = 1 and s = holding_simulator
       and held = ?held and fmt = plain_format and d = some_draws and w = 1]
  from inst h1 h2 have a: "processPosition half_5_50 close_succeeds open_succeeds M2_resolved
      holding_bot = holding_bot"
    by blast
  from inst g1 g2 g3 have b: "positions
        (simulation_round half_5_50 plain_format some_draws sim_M2_resolved holding_simulator)
        ''M2'' = None"
    and c: "ledger_view (tradeTracker
        (simulation_round half_5_50 plain_format some_draws sim_M2_resolved holding_simulator))
       = ledger_view (tradeTracker holding_simulator)
         @ [(SELL, ''M2'', if sm_winningOutcomeIndex ?sm \<noteq> None
                           then ''MARKET_RESOLVED'' else ''CLOSE_POSITION'')]"
    and e: "balance
        (simulation_round half_5_50 plain_format some_draws sim_M2_resolved holding_simulator)
       = balance holding_simulator
         + netReturn_of half_5_50 ?held (sp_outcome ?held) None (sm_winningOutcomeIndex ?sm)"
    by blast+
  from inst have f: "netReturn_of half_5_50 ?held (sp_outcome ?held) None (Some 1)
      = (if 1 = sp_outcome ?held
         then sp_invested ?held * (1 - FEE_BPS half_5_50 / 10000)
              * (1 - FEE_BPS half_5_50 / 10000)
         else 0)"
    by blast
  have f': "netReturn_of half_5_50 ?held 1 None (Some 1) = 49005 / 1000"
    using f by (simp add: half_5_50_def)
  from h1 h2 a g1 g3 b c e f' show ?thesis
    by (simp add: holding_simulator_fields)
qed

text \<open>
  Claim C2 as stated fails on the live path: the bot holds a position in \<open>M2\<close>, the feed
  reports \<open>M2\<close> as resolved, and \<^verbatim>\<open>processPosition\<close> leaves the position and the ledger
  untouched.
\<close>

theorem resolved_market_untouched_counterexample:
  "lf_market M2_resolved = Some (market_M2\<lparr>lm_status := ''RESOLVED''\<rparr>)
   \<and> map_option op_outcomeIndex (ourPositions holding_bot ''M2'') = Some 1
   \<and> processPosition half_5_50 close_succeeds open_succeeds M2_resolved holding_bot
       = holding_bot
   \<and> bot_ledger_view
        (processPosition half_5_50 close_succeeds open_succeeds M2_resolved holding_bot)
       = [(BUY, ''M2'', ''NEW_POSITION'')]"
proof -
  have "processPosition half_5_50 close_succeeds open_succeeds M2_resolved holding_bot
      = holding_bot"
    by (simp add: processPosition_def M2_resolved_def market_M2_def or_null_def truthy_def)
  then show ?thesis
    by (simp add: M2_resolved_def holding_bot_fields)
qed

subsection \<open>The first poll and the polls after it\<close>

lemma record_unseen:
  assumes "isInitialSync st" and "lastSeenPositions st slug = None"
    and "live_reading pos = Some (slug, market, oc, bal)"
  shows "processPosition cfg cw ow pos st
           = st\<lparr>lastSeenPositions := (lastSeenPositions st)(slug \<mapsto>
                \<lparr> ls_outcomeIndex = oc, ls_tokensBalance = bal \<rparr>)\<rparr>"
  using processPosition_reading [OF assms(3), of cfg cw ow st] assms(1,2)
  by (simp add: Let_def)

lemma nothing_to_read:
  assumes "live_reading pos = None"
    and "\<And>slug. slug_of pos = Some slug \<Longrightarrow> lastSeenPositions st slug = None"
  shows "processPosition cfg cw ow pos st = st"
proof (cases "lf_market pos")
  case None
  then show ?thesis by (simp add: processPosition_def)
next
  case (Some market)
  show ?thesis
  proof (cases "or_null (lm_slug market)")
    case None
    with Some show ?thesis by (simp add: processPosition_def)
  next
    case (Some slug)
    with \<open>lf_market pos = Some market\<close> have "slug_of pos = Some slug"
      by (simp add: slug_of_def)
    from assms(2) [OF this] have unseen: "lastSeenPositions st slug = None" .
    from assms(1) \<open>lf_market pos = Some market\<close> Some unseen show ?thesis
      unfolding processPosition_def live_reading_def
      by (auto split: option.splits if_splits prod.splits)
  qed
qed

lemma same_as_last_seen:
  assumes "live_reading pos = Some (slug, market, oc, bal)"
    and "lastSeenPositions st slug = Some \<lparr> ls_outcomeIndex = oc, ls_tokensBalance = bal \<rparr>"
  shows "processPosition cfg cw ow pos st = st"
proof -
  have "(lastSeenPositions st)(slug \<mapsto> \<lparr> ls_outcomeIndex = oc, ls_tokensBalance = bal \<rparr>)
      = lastSeenPositions st"
    using assms(2) by (rule map_upd_triv)
  then show ?thesis
    using processPosition_reading [OF assms(1), of cfg cw ow st] assms(2) by simp
qed

lemma reading_slug: "live_reading pos = Some (slug, market, oc, bal) \<Longrightarrow> slug_of pos = Some slug"
  unfolding live_reading_def slug_of_def
  by (auto split: option.splits if_splits prod.splits)

lemma feed_slugs_Cons:
  "feed_slugs (pos # rest)
     = (case slug_of pos of None \<Rightarrow> feed_slugs rest | Some s \<Rightarrow> s # feed_slugs rest)"
  by (simp add: feed_slugs_def map_filter_simps split: option.split)

lemma slug_in_feed_slugs:
  "p \<in> set feed \<Longrightarrow> slug_of p = Some s \<Longrightarrow> s \<in> set (feed_slugs feed)"
  by (induction feed) (auto simp: feed_slugs_Cons split: option.splits)

lemma record_all_other: "s \<notin> set (feed_slugs feed) \<Longrightarrow> record_all feed m s = m s"
proof (induction feed arbitrary: m)
  case Nil
  show ?case by simp
next
  case (Cons pos rest)
  show ?case
  proof (cases "live_reading pos")
    case None
    from Cons.prems have "s \<notin> set (feed_slugs rest)"
      by (auto simp: feed_slugs_Cons split: option.splits)
    with None Cons.IH show ?thesis by simp
  next
    case (Some r)
    then obtain slug market oc bal where r: "live_reading pos = Some (slug, market, oc, bal)"
      by (cases r) auto
    from reading_slug [OF r] Cons.prems have "s \<noteq> slug" and "s \<notin> set (feed_slugs rest)"
      by (auto simp: feed_slugs_Cons)
    with r Cons.IH show ?thesis by simp
  qed
qed

lemma record_all_reading:
  "distinct (feed_slugs feed) \<Longrightarrow> p \<in> set feed
   \<Longrightarrow> live_reading p = Some (slug, market, oc, bal)
   \<Longrightarrow> record_all feed m slug = Some \<lparr> ls_outcomeIndex = oc, ls_tokensBalance = bal \<rparr>"
proof (induction feed arbitrary: m)
  case Nil
  then show ?case by simp
next
  case (Cons pos rest)
  from Cons.prems(1) have d: "distinct (feed_slugs rest)"
    by (auto simp: feed_slugs_Cons split: option.splits)
  show ?case
  proof (cases "p = pos")
    case True
    from reading_slug [OF Cons.prems(3)] True Cons.prems(1)
    have "slug \<notin> set (feed_slugs rest)"
      by (simp add: feed_slugs_Cons)
    from record_all_other [OF this] True Cons.prems(3) show ?thesis by simp
  next
    case False
    with Cons.prems(2) have "p \<in> set rest" by simp
    from Cons.IH [OF d this Cons.prems(3)] show ?thesis by simp
  qed
qed

lemma record_all_unread:
  "distinct (feed_slugs feed) \<Longrightarrow> p \<in> set feed \<Longrightarrow> slug_of p = Some slug
   \<Longrightarrow> live_reading p = None \<Longrightarrow> record_all feed m slug = m slug"
proof (induction feed arbitrary: m)
  case Nil
  then show ?case by simp
next
  case (Cons pos rest)
  from Cons.prems(1) have d: "distinct (feed_slugs rest)"
    by (auto simp: feed_slugs_Cons split: option.splits)
  show ?case
  proof (cases "p = pos")
    case True
    from Cons.prems(3) True Cons.prems(1) have "slug \<notin> set (feed_slugs rest)"
      by (simp add: feed_slugs_Cons)
    from record_all_other [OF this] True Cons.prems(4) show ?thesis by simp
  next
    case False
    with Cons.prems(2) have in_rest: "p \<in> set rest" by simp
    then have "slug \<in> set (feed_slugs rest)"
      using Cons.prems(3) by (rule slug_in_feed_slugs)
    with Cons.prems(1) have other: "slug_of pos \<noteq> Some slug"
      by (auto simp: feed_slugs_Cons)
    have "(case live_reading pos of
             None \<Rightarrow> m
           | Some (slug', market, oc, bal) \<Rightarrow>
               m(slug' \<mapsto> \<lparr> ls_outcomeIndex = oc, ls_tokensBalance = bal \<rparr>)) slug = m slug"
    proof (cases "live_reading pos")
      case None
      then show ?thesis by simp
    next
      case (Some r)
      then obtain slug' market oc bal
        where r: "live_reading pos = Some (slug', market, oc, bal)"
        by (cases r) auto
      from reading_slug [OF r] other have "slug' \<noteq> slug" by auto
      with r show ?thesis by simp
    qed
    with Cons.IH [OF d in_rest Cons.prems(3,4)] show ?thesis by simp
  qed
qed

lemma cold_poll_loop:
  "isInitialSync st \<Longrightarrow> \<forall>s\<in>set (feed_slugs feed). lastSeenPositions st s = None
   \<Longrightarrow> distinct (feed_slugs feed)
   \<Longrightarrow> poll_loop cfg w i feed st
       = st\<lparr>lastSeenPositions := record_all feed (lastSeenPositions st)\<rparr>"
proof (induction feed arbitrary: st i)
  case Nil
  show ?case by simp
next
  case (Cons pos rest)
  from Cons.prems(3) have d: "distinct (feed_slugs rest)"
    by (auto simp: feed_slugs_Cons split: option.splits)
  show ?case
  proof (cases "live_reading pos")
    case None
    have "processPosition cfg (fst (w i)) (snd (w i)) pos st = st"
    proof (rule nothing_to_read [OF None])
      fix slug
      assume "slug_of pos = Some slug"
      with Cons.prems(2) show "lastSeenPositions st slug = None"
        by (simp add: feed_slugs_Cons)
    qed
    moreover from Cons.prems(2) have "\<forall>s\<in>set (feed_slugs rest). lastSeenPositions st s = None"
      by (auto simp: feed_slugs_Cons split: option.splits)
    ultimately show ?thesis
      using Cons.IH [OF Cons.prems(1) _ d, of "Suc i"] None by simp
  next
    case (Some r)
    then obtain slug market oc bal where r: "live_reading pos = Some (slug, market, oc, bal)"
      by (cases r) auto
    note sl = reading_slug [OF r]
    from Cons.prems(2) sl have unseen: "lastSeenPositions st slug = None"
      by (simp add: feed_slugs_Cons)
    define st1 where "st1 = st\<lparr>lastSeenPositions := (lastSeenPositions st)(slug \<mapsto>
        \<lparr> ls_outcomeIndex = oc, ls_tokensBalance = bal \<rparr>)\<rparr>"
    have step: "processPosition cfg (fst (w i)) (snd (w i)) pos st = st1"
      unfolding st1_def by (rule record_unseen [OF Cons.prems(1) unseen r])
    have i1: "isInitialSync st1" using Cons.prems(1) by (simp add: st1_def)
    from Cons.prems(3) sl have "slug \<notin> set (feed_slugs rest)"
      by (simp add: feed_slugs_Cons)
    with Cons.prems(2) sl have u1: "\<forall>s\<in>set (feed_slugs rest). lastSeenPositions st1 s = None"
      by (auto simp: st1_def feed_slugs_Cons)
    have "poll_loop cfg w i (pos # rest) st = poll_loop cfg w (Suc i) rest st1"
      by (simp add: step)
    also have "\<dots> = st1\<lparr>lastSeenPositions := record_all rest (lastSeenPositions st1)\<rparr>"
      by (rule Cons.IH [OF i1 u1 d])
    also have "\<dots> = st\<lparr>lastSeenPositions := record_all (pos # rest) (lastSeenPositions st)\<rparr>"
      by (simp add: st1_def r)
    finally show ?thesis .
  qed
qed

lemma idle_poll_loop:
  "(\<And>p cw ow. p \<in> set feed \<Longrightarrow> processPosition cfg cw ow p st = st)
   \<Longrightarrow> poll_loop cfg w i feed st = st"
  by (induction feed arbitrary: i) simp_all

lemma cold_poll:
  assumes init: "isInitialSync st" and empty: "lastSeenPositions st = Map.empty"
    and d: "distinct (feed_slugs feed)"
  shows "poll cfg w feed st
           = st\<lparr>lastSeenPositions := record_all feed Map.empty, isInitialSync := (feed = [])\<rparr>"
proof (cases "feed = []")
  case True
  with init empty show ?thesis by (simp add: poll_def)
next
  case False
  from empty have "\<forall>s\<in>set (feed_slugs feed). lastSeenPositions st s = None" by simp
  from cold_poll_loop [OF init this d, of cfg w 0] False empty show ?thesis
    by (simp add: poll_def)
qed

lemma second_poll_idle:
  assumes init: "isInitialSync st" and empty: "lastSeenPositions st = Map.empty"
    and d: "distinct (feed_slugs feed)"
  shows "poll cfg w' feed (poll cfg w feed st) = poll cfg w feed st"
proof (cases "feed = []")
  case True
  then show ?thesis by (simp add: poll_def)
next
  case False
  define st1 where "st1 = poll cfg w feed st"
  have st1: "st1 = st\<lparr>lastSeenPositions := record_all feed Map.empty, isInitialSync := False\<rparr>"
    unfolding st1_def using cold_poll [OF init empty d, of cfg w] False by simp
  have idle: "processPosition cfg cw ow p st1 = st1" if "p \<in> set feed" for p cw ow
  proof (cases "live_reading p")
    case None
    show ?thesis
    proof (rule nothing_to_read [OF None])
      fix slug
      assume "slug_of p = Some slug"
      from record_all_unread [OF d that this None, of Map.empty]
      show "lastSeenPositions st1 slug = None" by (simp add: st1)
    qed
  next
    case (Some r)
    then obtain slug market oc bal where r: "live_reading p = Some (slug, market, oc, bal)"
      by (cases r) auto
    from record_all_reading [OF d that r, of Map.empty]
    have "lastSeenPositions st1 slug = Some \<lparr> ls_outcomeIndex = oc, ls_tokensBalance = bal \<rparr>"
      by (simp add: st1)
    from same_as_last_seen [OF r this] show ?thesis .
  qed
  have "poll_loop cfg w' 0 feed st1 = st1"
    by (rule idle_poll_loop) (rule idle)
  moreover have "st1\<lparr>isInitialSync := False\<rparr> = st1" by (simp add: st1)
  ultimately have "poll cfg w' feed st1 = st1"
    using False by (simp add: poll_def)
  then show ?thesis unfolding st1_def .
qed

text \<open>
  Claim C3. While the flag \<^verbatim>\<open>isInitialSync\<close> is set, a target position in a market not seen
  before is recorded in the last-seen map and nothing else changes: no leg runs, whatever
  the chain would answer. So the first poll of a bot that starts without state, on a feed
  with one element per market, records every target position of the feed, submits no
  trade, leaves the ledger and the local positions alone and clears the flag (unless the
  feed is empty); and a later poll on the same feed changes nothing at all, so it submits
  no trade either. The flag belongs to the state of the bot and is cleared once, after
  the loop of the poll: it is a mode of the whole pass.
\<close>

theorem cold_start_records_without_trading:
  "(isInitialSync st \<and> lastSeenPositions st slug = None
      \<and> live_reading pos = Some (slug, market, oc, bal)
    \<longrightarrow> processPosition cfg cw ow pos st
          = st\<lparr>lastSeenPositions := (lastSeenPositions st)(slug \<mapsto>
               \<lparr> ls_outcomeIndex = oc, ls_tokensBalance = bal \<rparr>)\<rparr>)
   \<and> (isInitialSync st \<and> lastSeenPositions st = Map.empty \<and> distinct (feed_slugs feed)
    \<longrightarrow> poll cfg w feed st
          = st\<lparr>lastSeenPositions := record_all feed Map.empty, isInitialSync := (feed = [])\<rparr>
      \<and> submitted (poll cfg w feed st) = submitted st
      \<and> liveTracker (poll cfg w feed st) = liveTracker st
      \<and> ourPositions (poll cfg w feed st) = ourPositions st
      \<and> (p \<in> set feed \<and> live_reading p = Some (slug', market', oc', bal')
         \<longrightarrow> lastSeenPositions (poll cfg w feed st) slug'
               = Some \<lparr> ls_outcomeIndex = oc', ls_tokensBalance = bal' \<rparr>)
      \<and> poll cfg w' feed (poll cfg w feed st) = poll cfg w feed st
      \<and> submitted (poll cfg w' feed (poll cfg w feed st)) = submitted st)"
proof -
  have a: "processPosition cfg cw ow pos st
          = st\<lparr>lastSeenPositions := (lastSeenPositions st)(slug \<mapsto>
               \<lparr> ls_outcomeIndex = oc, ls_tokensBalance = bal \<rparr>)\<rparr>"
    if "isInitialSync st" "lastSeenPositions st slug = None"
      "live_reading pos = Some (slug, market, oc, bal)"
    using record_unseen [OF that] .
  have b: "poll cfg w feed st
          = st\<lparr>lastSeenPositions := record_all feed Map.empty, isInitialSync := (feed = [])\<rparr>
      \<and> submitted (poll cfg w feed st) = submitted st
      \<and> liveTracker (poll cfg w feed st) = liveTracker st
      \<and> ourPositions (poll cfg w feed st) = ourPositions st
      \<and> (p \<in> set feed \<and> live_reading p = Some (slug', market', oc', bal')
         \<longrightarrow> lastSeenPositions (poll cfg w feed st) slug'
               = Some \<lparr> ls_outcomeIndex = oc', ls_tokensBalance = bal' \<rparr>)
      \<and> poll cfg w' feed (poll cfg w feed st) = poll cfg w feed st
      \<and> submitted (poll cfg w' feed (poll cfg w feed st)) = submitted st"
    if h: "isInitialSync st" "lastSeenPositions st = Map.empty" "distinct (feed_slugs feed)"
  proof -
    note c = cold_poll [OF h, of cfg w]
    note s = second_poll_idle [OF h, of cfg w' w]
    have r: "lastSeenPositions (poll cfg w feed st) slug'
               = Some \<lparr> ls_outcomeIndex = oc', ls_tokensBalance = bal' \<rparr>"
      if "p \<in> set feed" "live_reading p = Some (slug', market', oc', bal')"
      using record_all_reading [OF h(3) that, of Map.empty] by (simp add: c)
    have "submitted (poll cfg w feed st) = submitted st"
      "liveTracker (poll cfg w feed st) = liveTracker st"
      "ourPositions (poll cfg w feed st) = ourPositions st"
      by (simp_all add: c)
    with c s r show ?thesis by simp
  qed
  from a b show ?thesis by blast
qed

lemma feed_of_reading:
  "live_reading (feed_of ''M1'' ''9000000'' ''0'')
     = Some (''M1'', market_M2\<lparr>lm_slug := Some ''M1''\<rparr>, 1, 9000000)"
  "live_reading (feed_of ''M2'' ''0'' ''7000000'')
     = Some (''M2'', market_M2\<lparr>lm_slug := Some ''M2''\<rparr>, 0, 7000000)"
  by (simp_all add: live_reading_def feed_of_def balance_field_literals targetOutcome_of_def
      market_M2_def or_null_def truthy_def)

lemma three_markets_slugs: "feed_slugs three_markets = [''M1'', ''M2'', ''M3'']"
  by (simp add: three_markets_def feed_slugs_Cons slug_of_def feed_of_def or_null_def
      truthy_def)
    (simp add: feed_slugs_def)

text \<open>
  The theorem at a bot that has just started and a feed of three markets, on a chain
  that would accept every trade: three positions are recorded, none is traded, on the
  first poll and on the second.
\<close>

theorem cold_start_records_without_trading_witness:
  "isInitialSync started_bot
   \<and> lastSeenPositions started_bot ''M1'' = None
   \<and> live_reading (feed_of ''M1'' ''9000000'' ''0'')
       = Some (''M1'', market_M2\<lparr>lm_slug := Some ''M1''\<rparr>, 1, 9000000)
   \<and> lastSeenPositions
        (processPosition half_5_50 close_succeeds open_succeeds
           (feed_of ''M1'' ''9000000'' ''0'') started_bot) ''M1''
       = Some \<lparr> ls_outcomeIndex = 1, ls_tokensBalance = 9000000 \<rparr>
   \<and> submitted
        (processPosition half_5_50 close_succeeds open_succeeds
           (feed_of ''M1'' ''9000000'' ''0'') started_bot) = []
   \<and> lastSeenPositions started_bot = Map.empty
   \<and> distinct (feed_slugs three_markets)
   \<and> submitted (poll half_5_50 willing_chain three_markets started_bot) = []
   \<and> liveTracker (poll half_5_50 willing_chain three_markets started_bot) = Some new_tracker
   \<and> isInitialSync (poll half_5_50 willing_chain three_markets started_bot) = False
   \<and> lastSeenPositions (poll half_5_50 willing_chain three_markets started_bot) ''M2''
       = Some \<lparr> ls_outcomeIndex = 0, ls_tokensBalance = 7000000 \<rparr>
   \<and> submitted
        (poll half_5_50 willing_chain three_markets
           (poll half_5_50 willing_chain three_markets started_bot)) = []"
proof -
  let ?p1 = "feed_of ''M1'' ''9000000'' ''0''"
  let ?p2 = "feed_of ''M2'' ''0'' ''7000000''"
  have h1: "isInitialSync started_bot" by (simp add: started_bot_def)
  have h2: "lastSeenPositions started_bot ''M1'' = None" by (simp add: started_bot_def)
  have h3: "live_reading ?p1 = Some (''M1'', market_M2\<lparr>lm_slug := Some ''M1''\<rparr>, 1, 9000000)"
    by (rule feed_of_reading(1))
  have h4: "lastSeenPositions started_bot = Map.empty" by (simp add: started_bot_def)
  have h5: "distinct (feed_slugs three_markets)" by (simp add: three_markets_slugs)
  have h6: "?p2 \<in> set three_markets" by (simp add: three_markets_def)
  have h7: "live_reading ?p2 = Some (''M2'', market_M2\<lparr>lm_slug := Some ''M2''\<rparr>, 0, 7000000)"
    by (rule feed_of_reading(2))
  have ne: "three_markets \<noteq> []" by (simp add: three_markets_def)
  note inst = cold_start_records_without_trading
    [where st = started_bot and slug = "''M1''" and pos = ?p1
       and market = "market_M2\<lparr>lm_slug := Some ''M1''\<rparr>" and oc = 1 and bal = 9000000
       and cfg = half_5_50 and cw = close_succeeds and ow = open_succeeds
       and feed = three_markets and w = willing_chain and w' = willing_chain
       and p = ?p2 and slug' = "''M2''" and market' = "market_M2\<lparr>lm_slug := Some ''M2''\<rparr>"
       and oc' = 0 and bal' = 7000000]
  from inst h1 h2 h3 have a: "processPosition half_5_50 close_succeeds open_succeeds ?p1
      started_bot
      = started_bot\<lparr>lastSeenPositions := (lastSeenPositions started_bot)(''M1'' \<mapsto>
          \<lparr> ls_outcomeIndex = 1, ls_tokensBalance = 9000000 \<rparr>)\<rparr>"
    by blast
  from inst h1 h4 h5 have b: "poll half_5_50 willing_chain three_markets started_bot
        = started_bot\<lparr>lastSeenPositions := record_all three_markets Map.empty,
                       isInitialSync := (three_markets = [])\<rparr>"
    and c: "submitted (poll half_5_50 willing_chain three_markets started_bot)
        = submitted started_bot"
    and d: "liveTracker (poll half_5_50 willing_chain three_markets started_bot)
        = liveTracker started_bot"
    and e: "?p2 \<in> set three_markets
          \<and> live_reading ?p2 = Some (''M2'', market_M2\<lparr>lm_slug := Some ''M2''\<rparr>, 0, 7000000)
        \<longrightarrow> lastSeenPositions (poll half_5_50 willing_chain three_markets started_bot) ''M2''
              = Some \<lparr> ls_outcomeIndex = 0, ls_tokensBalance = 7000000 \<rparr>"
    and f: "submitted (poll half_5_50 willing_chain three_markets
          (poll half_5_50 willing_chain three_markets started_bot)) = submitted started_bot"
    by blast+
  from e h6 h7 have e': "lastSeenPositions
        (poll half_5_50 willing_chain three_markets started_bot) ''M2''
      = Some \<lparr> ls_outcomeIndex = 0, ls_tokensBalance = 7000000 \<rparr>"
    by blast
  have g: "isInitialSync (poll half_5_50 willing_chain three_markets started_bot) = False"
    unfolding b using ne by simp
  have s0: "submitted started_bot = []" "liveTracker started_bot = Some new_tracker"
    by (simp_all add: started_bot_def)
  from h1 h2 h3 h4 h5 a c d e' f g s0 show ?thesis by simp
qed

end
